theory Spec2Isabelle
  imports Complex_Main "HOL-Library.AList"
begin

section \<open>Errors\<close>

text \<open>
  The reasons a Kubernetes API status error can carry (\<^verbatim>\<open>metav1.StatusReason\<close>), as far as
  the code distinguishes them, and the errors of \<^verbatim>\<open>pkg/metrics/metrics.go\<close>:
  a status error returned by the client, an error built by \<^verbatim>\<open>fmt.Errorf\<close> without and
  with a wrapped cause (\<^verbatim>\<open>%w\<close>), and any other error a client may return.
\<close>

datatype status_reason = AlreadyExists | NotFound | Forbidden | Conflict | OtherReason string

datatype error =
    StatusError status_reason
  | Errorf string
  | Wrapf string error
  | OtherError string

text \<open>\<^verbatim>\<open>apierrors.IsAlreadyExists\<close>: the reason of the (possibly wrapped) status error.\<close>

fun IsAlreadyExists :: "error \<Rightarrow> bool" where
  "IsAlreadyExists (StatusError r) = (r = AlreadyExists)"
| "IsAlreadyExists (Wrapf _ e) = IsAlreadyExists e"
| "IsAlreadyExists _ = False"

section \<open>Constants of the package\<close>

definition BuildStrategyLabel :: string where "BuildStrategyLabel = ''buildstrategy''"
definition NamespaceLabel :: string where "NamespaceLabel = ''namespace''"
definition BuildLabel :: string where "BuildLabel = ''build''"
definition BuildRunLabel :: string where "BuildRunLabel = ''buildrun''"
definition BuildControllerName :: string where "BuildControllerName = ''shipwright-build-controller''"
definition PodNameEnvVar :: string where "PodNameEnvVar = ''POD_NAME''"

section \<open>Objects of the cluster\<close>

text \<open>
  \<^verbatim>\<open>metav1.OwnerReference\<close>. The two flags are pointers to booleans in Go, hence options.
\<close>

record owner_reference =
  ref_APIVersion :: string
  ref_Kind :: string
  ref_Name :: string
  ref_UID :: string
  ref_Controller :: "bool option"
  ref_BlockOwnerDeletion :: "bool option"

text \<open>
  What the code reads of a fetched object (a \<^verbatim>\<open>corev1.Pod\<close> or an
  \<^verbatim>\<open>unstructured.Unstructured\<close>): its type meta and the object meta fields
  name, namespace, UID and owner references.
\<close>

record k8s_object =
  obj_APIVersion :: string
  obj_Kind :: string
  obj_Name :: string
  obj_Namespace :: string
  obj_UID :: string
  obj_OwnerReferences :: "owner_reference list"

text \<open>\<^verbatim>\<open>v1.Service\<close>: object meta and the fields of the spec that the code sets or reads.\<close>

text \<open>\<^verbatim>\<open>v1.ServiceType\<close> is a string type; the empty string is its zero value.\<close>

definition ServiceTypeClusterIP :: string where "ServiceTypeClusterIP = ''ClusterIP''"

record service_port =
  port_Name :: string
  port_Port :: int

record service =
  svc_Name :: string
  svc_Namespace :: string
  svc_Labels :: "(string \<times> string) list"
  svc_ResourceVersion :: string
  svc_OwnerReferences :: "owner_reference list"
  svc_Ports :: "service_port list"
  svc_Selector :: "(string \<times> string) list"
  svc_Type :: string
  svc_ClusterIP :: string

text \<open>
  The key of a fetch: the kind of the object asked for (fixed by the Go type of the
  receiving object, or set on the unstructured object) and \<^verbatim>\<open>types.NamespacedName\<close>.
\<close>

record object_key =
  key_APIVersion :: string
  key_Kind :: string
  key_Namespace :: string
  key_Name :: string

section \<open>The client\<close>

text \<open>
  \<^verbatim>\<open>crclient.Client\<close> is an interface; the code uses its methods Get (into a Pod or an
  unstructured object, and into a Service), Create and Update. An implementation is a
  record of functions over a store of type \<open>'w\<close>. A read leaves the store as it is;
  Create and Update return the new store, and the object as the server returned it.
\<close>

record 'w client =
  Get :: "object_key \<Rightarrow> 'w \<Rightarrow> error + k8s_object"
  GetService :: "object_key \<Rightarrow> 'w \<Rightarrow> error + service"
  Create :: "service \<Rightarrow> 'w \<Rightarrow> (error + service) \<times> 'w"
  Update :: "service \<Rightarrow> 'w \<Rightarrow> (error + service) \<times> 'w"

text \<open>The calls made on the client are logged next to the store, in order.\<close>

datatype api_call = GetCall object_key | CreateCall service | UpdateCall service

record 'w cluster =
  store :: 'w
  calls :: "api_call list"

definition client_Get ::
  "'w client \<Rightarrow> object_key \<Rightarrow> 'w cluster \<Rightarrow> (error + k8s_object) \<times> 'w cluster" where
  "client_Get c key st = (Get c key (store st), st\<lparr>calls := calls st @ [GetCall key]\<rparr>)"

definition client_GetService ::
  "'w client \<Rightarrow> object_key \<Rightarrow> 'w cluster \<Rightarrow> (error + service) \<times> 'w cluster" where
  "client_GetService c key st =
     (GetService c key (store st), st\<lparr>calls := calls st @ [GetCall key]\<rparr>)"

definition client_Create ::
  "'w client \<Rightarrow> service \<Rightarrow> 'w cluster \<Rightarrow> (error + service) \<times> 'w cluster" where
  "client_Create c s st =
     (case Create c s (store st) of
        (r, w') \<Rightarrow> (r, \<lparr>store = w', calls = calls st @ [CreateCall s]\<rparr>))"

definition client_Update ::
  "'w client \<Rightarrow> service \<Rightarrow> 'w cluster \<Rightarrow> (error + service) \<times> 'w cluster" where
  "client_Update c s st =
     (case Update c s (store st) of
        (r, w') \<Rightarrow> (r, \<lparr>store = w', calls = calls st @ [UpdateCall s]\<rparr>))"

section \<open>Owner references of the apimachinery library\<close>

text \<open>
  \<^verbatim>\<open>metav1.GetControllerOf\<close> and \<^verbatim>\<open>metav1.NewControllerRef\<close> belong to the Kubernetes
  library, not to this repository. The first is the standard is-controlled-by predicate:
  of the owner references of an object, the first one marked as controller, if any. The
  second builds a controller reference to an object from a group, version and kind, the
  name of the object and its UID, with both flags set. The group, version and kind of an
  object are read from its type meta; group and version are kept as the API version they
  are written as.
\<close>

definition GetControllerOf :: "k8s_object \<Rightarrow> owner_reference option" where
  "GetControllerOf obj = find (\<lambda>r. ref_Controller r = Some True) (obj_OwnerReferences obj)"

definition GroupVersionKind :: "k8s_object \<Rightarrow> string \<times> string" where
  "GroupVersionKind obj = (obj_APIVersion obj, obj_Kind obj)"

definition NewControllerRef :: "k8s_object \<Rightarrow> string \<times> string \<Rightarrow> owner_reference" where
  "NewControllerRef owner gvk =
     \<lparr>ref_APIVersion = fst gvk, ref_Kind = snd gvk,
      ref_Name = obj_Name owner, ref_UID = obj_UID owner,
      ref_Controller = Some True, ref_BlockOwnerDeletion = Some True\<rparr>"

section \<open>Owner chain resolution\<close>

text \<open>The key under which \<^verbatim>\<open>findFinalOwnerRef\<close> fetches the object of a reference.\<close>

definition owner_key :: "string \<Rightarrow> owner_reference \<Rightarrow> object_key" where
  "owner_key ns ownerRef =
     \<lparr>key_APIVersion = ref_APIVersion ownerRef, key_Kind = ref_Kind ownerRef,
      key_Namespace = ns, key_Name = ref_Name ownerRef\<rparr>"

text \<open>
  \<^verbatim>\<open>findFinalOwnerRef\<close> recurses without a bound, so it is a partial function: the value
  \<open>None\<close> says that the call does not return.
\<close>

partial_function (option) findFinalOwnerRef ::
  "'w client \<Rightarrow> string \<Rightarrow> owner_reference option \<Rightarrow> 'w cluster
     \<Rightarrow> ((error + owner_reference option) \<times> 'w cluster) option" where
  "findFinalOwnerRef c ns ownerRef st =
     (case ownerRef of
        None \<Rightarrow> Some (Inr None, st)
      | Some r \<Rightarrow>
          (case client_Get c (owner_key ns r) st of
             (Inl err, st') \<Rightarrow> Some (Inl err, st')
           | (Inr obj, st') \<Rightarrow>
               (case GetControllerOf obj of
                  Some newOwnerRef \<Rightarrow> findFinalOwnerRef c ns (Some newOwnerRef) st'
                | None \<Rightarrow> Some (Inr (Some r), st'))))"

text \<open>
  The environment of the process is a map from names to values; \<^verbatim>\<open>os.Getenv\<close> gives
  the empty string for a variable that is not set. \<^verbatim>\<open>getPodOwnerRef\<close> fetches the Pod
  into a typed object, so the kind of the key is fixed; the log line written on a failed
  fetch is not modelled.
\<close>

definition Getenv :: "(string \<rightharpoonup> string) \<Rightarrow> string \<Rightarrow> string" where
  "Getenv env k = (case env k of None \<Rightarrow> [] | Some v \<Rightarrow> v)"

definition pod_key :: "string \<Rightarrow> string \<Rightarrow> object_key" where
  "pod_key ns podName =
     \<lparr>key_APIVersion = ''v1'', key_Kind = ''Pod'', key_Namespace = ns, key_Name = podName\<rparr>"

definition getPodOwnerRef ::
  "(string \<rightharpoonup> string) \<Rightarrow> 'w client \<Rightarrow> string \<Rightarrow> 'w cluster
     \<Rightarrow> ((error + owner_reference) \<times> 'w cluster) option" where
  "getPodOwnerRef env c ns st =
     (let podName = Getenv env PodNameEnvVar in
      if podName = [] then
        Some (Inl (Errorf (''required env '' @ PodNameEnvVar
                 @ '' not set, please configure downward API'')), st)
      else
        (case client_Get c (pod_key ns podName) st of
           (Inl err, st1) \<Rightarrow> Some (Inl err, st1)
         | (Inr fetched, st1) \<Rightarrow>
             (let pod = fetched\<lparr>obj_APIVersion := ''v1'', obj_Kind := ''Pod''\<rparr>;
                  podOwnerRefs = NewControllerRef pod (GroupVersionKind pod);
                  ownerRef = GetControllerOf pod
              in case findFinalOwnerRef c ns ownerRef st1 of
                   None \<Rightarrow> None
                 | Some (Inl err, st2) \<Rightarrow> Some (Inl err, st2)
                 | Some (Inr (Some finalOwnerRef), st2) \<Rightarrow> Some (Inr finalOwnerRef, st2)
                 | Some (Inr None, st2) \<Rightarrow> Some (Inr podOwnerRefs, st2))))"

section \<open>Publishing the metrics service\<close>

text \<open>
  The configuration (\<^verbatim>\<open>config.Config\<close>), with the fields the package reads:
  \<^verbatim>\<open>Prometheus.EnabledLabels\<close>, the three bucket lists and
  \<^verbatim>\<open>ManagerOptions.LeaderElectionNamespace\<close>. A \<^verbatim>\<open>float64\<close> is modelled by the
  real number it stands for.
\<close>

record config =
  EnabledLabels :: "string list"
  BuildRunEstablishDurationBuckets :: "real list"
  BuildRunCompletionDurationBuckets :: "real list"
  BuildRunRampUpDurationBuckets :: "real list"
  LeaderElectionNamespace :: string

text \<open>
  \<^verbatim>\<open>createOrUpdateService\<close>. A successful Create or Update writes the server's answer
  into the object passed, which is what the function returns; a failed call leaves the
  object as it was. The log lines written through \<^verbatim>\<open>ctxlog\<close> are not modelled.
\<close>

definition service_key :: "service \<Rightarrow> object_key" where
  "service_key s =
     \<lparr>key_APIVersion = ''v1'', key_Kind = ''Service'',
      key_Namespace = svc_Namespace s, key_Name = svc_Name s\<rparr>"

definition createOrUpdateService ::
  "'w client \<Rightarrow> config \<Rightarrow> service \<Rightarrow> 'w cluster \<Rightarrow> (error + service) \<times> 'w cluster" where
  "createOrUpdateService c buildCfg s st =
     (case client_Create c s st of
        (Inr created, st1) \<Rightarrow> (Inr created, st1)
      | (Inl err, st1) \<Rightarrow>
          if \<not> IsAlreadyExists err then (Inl err, st1)
          else
            (case client_GetService c (service_key s) st1 of
               (Inl err, st2) \<Rightarrow> (Inl err, st2)
             | (Inr existingService, st2) \<Rightarrow>
                 (let s1 = s\<lparr>svc_ResourceVersion := svc_ResourceVersion existingService\<rparr>;
                      s2 = (if svc_Type existingService = ServiceTypeClusterIP
                            then s1\<lparr>svc_ClusterIP := svc_ClusterIP existingService\<rparr>
                            else s1)
                  in case client_Update c s2 st2 of
                       (Inl err, st3) \<Rightarrow> (Inl err, st3)
                     | (Inr updated, st3) \<Rightarrow> (Inr updated, st3))))"

text \<open>
  \<^verbatim>\<open>CreateMetricsService\<close>. The constructor of the client, \<^verbatim>\<open>crclient.New\<close>, is a
  parameter: it gives a client for the REST configuration or fails.
\<close>

definition CreateMetricsService ::
  "('r \<Rightarrow> error + 'w client) \<Rightarrow> (string \<rightharpoonup> string) \<Rightarrow> 'r \<Rightarrow> config
     \<Rightarrow> service_port list \<Rightarrow> 'w cluster \<Rightarrow> ((error + service) \<times> 'w cluster) option" where
  "CreateMetricsService New env cfg buildCfg servicePorts st =
     (if length servicePorts < 1 then
        Some (Inl (Errorf ''failed to create metrics Serice; service ports were empty''), st)
      else
        (case New cfg of
           Inl err \<Rightarrow> Some (Inl (Wrapf ''failed to create new client: '' err), st)
         | Inr c \<Rightarrow>
             (let label = [(''name'', BuildControllerName)];
                  service =
                    \<lparr>svc_Name = BuildControllerName @ ''-metrics'',
                     svc_Namespace = LeaderElectionNamespace buildCfg,
                     svc_Labels = label, svc_ResourceVersion = [], svc_OwnerReferences = [],
                     svc_Ports = servicePorts, svc_Selector = label,
                     svc_Type = [], svc_ClusterIP = []\<rparr>
              in case getPodOwnerRef env c (LeaderElectionNamespace buildCfg) st of
                   None \<Rightarrow> None
                 | Some (Inl err, st1) \<Rightarrow> Some (Inl err, st1)
                 | Some (Inr ownRef, st1) \<Rightarrow>
                     (case createOrUpdateService c buildCfg
                             (service\<lparr>svc_OwnerReferences := [ownRef]\<rparr>) st1 of
                        (Inl err, st2) \<Rightarrow>
                          Some (Inl (Wrapf ''failed to create or get service for metrics: '' err),
                                st2)
                      | (Inr service', st2) \<Rightarrow> Some (Inr service', st2)))))"

section \<open>A client over a store in memory\<close>

text \<open>
  An implementation of the client interface, used where the functions are run on a
  concrete cluster: objects and services are kept by key; a fetch of a missing key and an
  update of a missing service fail with NotFound, a create of an existing service fails
  with AlreadyExists, an update with another resource version fails with Conflict. The
  server's answer to a write carries a new resource version and, if none was asked for,
  the type ClusterIP.
\<close>

record mem_store =
  mem_objects :: "(object_key \<times> k8s_object) list"
  mem_services :: "(object_key \<times> service) list"

definition mem_stored :: "service \<Rightarrow> service" where
  "mem_stored s =
     s\<lparr>svc_ResourceVersion := svc_ResourceVersion s @ ''1'',
       svc_Type := (if svc_Type s = [] then ServiceTypeClusterIP else svc_Type s)\<rparr>"

definition mem_client :: "mem_store client" where
  "mem_client =
     \<lparr>Get = (\<lambda>k w. case map_of (mem_objects w) k of
                    None \<Rightarrow> Inl (StatusError NotFound) | Some obj \<Rightarrow> Inr obj),
      GetService = (\<lambda>k w. case map_of (mem_services w) k of
                    None \<Rightarrow> Inl (StatusError NotFound) | Some s \<Rightarrow> Inr s),
      Create = (\<lambda>s w. case map_of (mem_services w) (service_key s) of
                    Some _ \<Rightarrow> (Inl (StatusError AlreadyExists), w)
                  | None \<Rightarrow>
                      (Inr (mem_stored s),
                       w\<lparr>mem_services := (service_key s, mem_stored s) # mem_services w\<rparr>)),
      Update = (\<lambda>s w. case map_of (mem_services w) (service_key s) of
                    None \<Rightarrow> (Inl (StatusError NotFound), w)
                  | Some existing \<Rightarrow>
                      if svc_ResourceVersion s \<noteq> svc_ResourceVersion existing
                      then (Inl (StatusError Conflict), w)
                      else (Inr (mem_stored s),
                            w\<lparr>mem_services :=
                                AList.update (service_key s) (mem_stored s) (mem_services w)\<rparr>))\<rparr>"

section \<open>Instruments\<close>

text \<open>
  The counters and histograms are those of the Prometheus client library, which is not
  part of this repository; they are modelled as far as the package uses them. A vector
  has a name, a help text, its label names in the order given at creation and one child
  per list of label values. \<^verbatim>\<open>With\<close> takes a label map and panics unless the map has as
  many entries as the vector has label names, every value in it is valid UTF-8 and it
  has a value for each label name; it gives the child for these values and creates it
  when it is missing. The creation of a child of a histogram panics when the bucket
  bounds are not strictly increasing. \<^verbatim>\<open>Inc\<close> adds one to a counter and \<^verbatim>\<open>Observe\<close> adds
  a sample to a histogram, whatever its sign. \<^verbatim>\<open>MustRegister\<close> panics when a collector
  of the same name is registered already; the registry is kept as the list of registered
  names. An empty list of bounds stands for the default bounds of the library.
\<close>

datatype panic =
    AlreadyRegistered string
  | InconsistentCardinality nat nat
  | LabelMissing string
  | InvalidUTF8
  | BucketsNotIncreasing

record counter_vec =
  cv_Name :: string
  cv_Help :: string
  cv_labelNames :: "string list"
  cv_children :: "string list \<rightharpoonup> nat"

record histogram_vec =
  hv_Name :: string
  hv_Help :: string
  hv_Buckets :: "real list"
  hv_labelNames :: "string list"
  hv_children :: "string list \<rightharpoonup> real list"

definition NewCounterVec :: "string \<Rightarrow> string \<Rightarrow> string list \<Rightarrow> counter_vec" where
  "NewCounterVec name help labelNames =
     \<lparr>cv_Name = name, cv_Help = help, cv_labelNames = labelNames, cv_children = Map.empty\<rparr>"

definition NewHistogramVec ::
  "string \<Rightarrow> string \<Rightarrow> real list \<Rightarrow> string list \<Rightarrow> histogram_vec" where
  "NewHistogramVec name help buckets labelNames =
     \<lparr>hv_Name = name, hv_Help = help, hv_Buckets = buckets, hv_labelNames = labelNames,
      hv_children = Map.empty\<rparr>"

text \<open>
  \<^verbatim>\<open>prometheus.Labels\<close> is a Go map from label name to value, kept here as an association
  list with one entry per key: an assignment \<^verbatim>\<open>labels[k] = v\<close> is \<open>AList.update k v\<close>.
\<close>

type_synonym labels = "(string \<times> string) list"

fun labelValues :: "string list \<Rightarrow> labels \<Rightarrow> panic + string list" where
  "labelValues [] labels = Inr []"
| "labelValues (n # ns) labels =
     (case map_of labels n of
        None \<Rightarrow> Inl (LabelMissing n)
      | Some v \<Rightarrow>
          (case labelValues ns labels of Inl p \<Rightarrow> Inl p | Inr vs \<Rightarrow> Inr (v # vs)))"

text \<open>
  \<^verbatim>\<open>utf8.ValidString\<close> of the Go library: a string, which is a sequence of bytes, is valid
  when it is a sequence of well-formed encodings. These are a byte below 128; a byte
  from 194 to 223 and one continuation byte; a byte from 224 to 239 and two continuation
  bytes, the first of them from 160 after 224 and up to 159 after 237; a byte from 240
  to 244 and three continuation bytes, the first of them from 144 after 240 and up to 143
  after 244.
\<close>

definition continuation :: "nat \<Rightarrow> bool" where
  "continuation b \<longleftrightarrow> 128 \<le> b \<and> b \<le> 191"

fun valid_bytes :: "nat list \<Rightarrow> bool" where
  "valid_bytes [] = True"
| "valid_bytes (b0 # bs) =
     (if b0 < 128 then valid_bytes bs
      else if 194 \<le> b0 \<and> b0 \<le> 223 then
        (case bs of
           b1 # rest \<Rightarrow> continuation b1 \<and> valid_bytes rest
         | _ \<Rightarrow> False)
      else if 224 \<le> b0 \<and> b0 \<le> 239 then
        (case bs of
           b1 # b2 # rest \<Rightarrow>
             (if b0 = 224 then 160 \<le> b1 \<and> b1 \<le> 191
              else if b0 = 237 then 128 \<le> b1 \<and> b1 \<le> 159
              else continuation b1)
             \<and> continuation b2 \<and> valid_bytes rest
         | _ \<Rightarrow> False)
      else if 240 \<le> b0 \<and> b0 \<le> 244 then
        (case bs of
           b1 # b2 # b3 # rest \<Rightarrow>
             (if b0 = 240 then 144 \<le> b1 \<and> b1 \<le> 191
              else if b0 = 244 then 128 \<le> b1 \<and> b1 \<le> 143
              else continuation b1)
             \<and> continuation b2 \<and> continuation b3 \<and> valid_bytes rest
         | _ \<Rightarrow> False)
      else False)"

definition ValidString :: "string \<Rightarrow> bool" where
  "ValidString s = valid_bytes (map of_char s)"

definition With :: "string list \<Rightarrow> labels \<Rightarrow> panic + string list" where
  "With labelNames labels =
     (if length labels \<noteq> length labelNames
      then Inl (InconsistentCardinality (length labelNames) (length labels))
      else if \<not> list_all (\<lambda>(name, val). ValidString val) labels
      then Inl InvalidUTF8
      else labelValues labelNames labels)"

fun increasing :: "real list \<Rightarrow> bool" where
  "increasing (x # y # ys) = (x < y \<and> increasing (y # ys))"
| "increasing bounds = True"

definition histogram_With :: "histogram_vec \<Rightarrow> labels \<Rightarrow> panic + string list" where
  "histogram_With hv labels =
     (case With (hv_labelNames hv) labels of
        Inl p \<Rightarrow> Inl p
      | Inr lvs \<Rightarrow>
          if hv_children hv lvs = None \<and> \<not> increasing (hv_Buckets hv)
          then Inl BucketsNotIncreasing else Inr lvs)"

definition counter_Inc :: "counter_vec \<Rightarrow> string list \<Rightarrow> counter_vec" where
  "counter_Inc cv lvs =
     cv\<lparr>cv_children :=
          (cv_children cv)(lvs \<mapsto> (case cv_children cv lvs of None \<Rightarrow> 0 | Some n \<Rightarrow> n) + 1)\<rparr>"

definition histogram_Observe :: "histogram_vec \<Rightarrow> string list \<Rightarrow> real \<Rightarrow> histogram_vec" where
  "histogram_Observe hv lvs v =
     hv\<lparr>hv_children :=
          (hv_children hv)(lvs \<mapsto> (case hv_children hv lvs of None \<Rightarrow> [] | Some vs \<Rightarrow> vs) @ [v])\<rparr>"

text \<open>
  \<^verbatim>\<open>time.Duration\<close> counts nanoseconds; \<^verbatim>\<open>Seconds\<close> gives them as a floating-point number
  of seconds, modelled by the real number it stands for.
\<close>

definition Seconds :: "int \<Rightarrow> real" where
  "Seconds d = real_of_int d / 1000000000"

section \<open>The state of the metrics package\<close>

text \<open>
  The variables of the package (a nil pointer is \<open>None\<close>), and the registry
  \<^verbatim>\<open>metrics.Registry\<close> of the controller runtime that \<^verbatim>\<open>InitPrometheus\<close> registers with.
\<close>

record metrics_state =
  buildCount :: "counter_vec option"
  buildRunCount :: "counter_vec option"
  buildRunEstablishDuration :: "histogram_vec option"
  buildRunCompletionDuration :: "histogram_vec option"
  buildRunRampUpDuration :: "histogram_vec option"
  taskRunRampUpDuration :: "histogram_vec option"
  taskRunPodRampUpDuration :: "histogram_vec option"
  buildStrategyLabelEnabled :: bool
  namespaceLabelEnabled :: bool
  buildLabelEnabled :: bool
  buildRunLabelEnabled :: bool
  initialized :: bool
  registry :: "string list"

text \<open>The state at the start of the process, for the names already in the registry.\<close>

definition initial_state :: "string list \<Rightarrow> metrics_state" where
  "initial_state registered =
     \<lparr>buildCount = None, buildRunCount = None,
      buildRunEstablishDuration = None, buildRunCompletionDuration = None,
      buildRunRampUpDuration = None, taskRunRampUpDuration = None,
      taskRunPodRampUpDuration = None,
      buildStrategyLabelEnabled = False, namespaceLabelEnabled = False,
      buildLabelEnabled = False, buildRunLabelEnabled = False,
      initialized = False, registry = registered\<rparr>"

fun MustRegister :: "string list \<Rightarrow> metrics_state \<Rightarrow> panic + metrics_state" where
  "MustRegister [] s = Inr s"
| "MustRegister (n # ns) s =
     (if n \<in> set (registry s) then Inl (AlreadyRegistered n)
      else MustRegister ns (s\<lparr>registry := registry s @ [n]\<rparr>))"

fun contains :: "string list \<Rightarrow> string \<Rightarrow> bool" where
  "contains [] element = False"
| "contains (candidate # slice) element =
     (if candidate = element then True else contains slice element)"

text \<open>The names and help texts that \<^verbatim>\<open>InitPrometheus\<close> gives to the instruments.\<close>

definition buildCount_Name :: string where
  "buildCount_Name = ''build_builds_registered_total''"
definition buildCount_Help :: string where
  "buildCount_Help = ''Number of total registered Builds.''"
definition buildRunCount_Name :: string where
  "buildRunCount_Name = ''build_buildruns_completed_total''"
definition buildRunCount_Help :: string where
  "buildRunCount_Help = ''Number of total completed BuildRuns.''"
definition buildRunEstablishDuration_Name :: string where
  "buildRunEstablishDuration_Name = ''build_buildrun_establish_duration_seconds''"
definition buildRunEstablishDuration_Help :: string where
  "buildRunEstablishDuration_Help = ''BuildRun establish duration in seconds.''"
definition buildRunCompletionDuration_Name :: string where
  "buildRunCompletionDuration_Name = ''build_buildrun_completion_duration_seconds''"
definition buildRunCompletionDuration_Help :: string where
  "buildRunCompletionDuration_Help = ''BuildRun completion duration in seconds.''"
definition buildRunRampUpDuration_Name :: string where
  "buildRunRampUpDuration_Name = ''build_buildrun_rampup_duration_seconds''"
definition buildRunRampUpDuration_Help :: string where
  "buildRunRampUpDuration_Help =
     ''BuildRun ramp-up duration in seconds ''
     @ ''(time between buildrun creation and taskrun creation).''"
definition taskRunRampUpDuration_Name :: string where
  "taskRunRampUpDuration_Name = ''build_buildrun_taskrun_rampup_duration_seconds''"
definition taskRunRampUpDuration_Help :: string where
  "taskRunRampUpDuration_Help =
     ''BuildRun taskrun ramp-up duration in seconds ''
     @ ''(time between taskrun creation and taskrun pod creation).''"
definition taskRunPodRampUpDuration_Name :: string where
  "taskRunPodRampUpDuration_Name = ''build_buildrun_taskrun_pod_rampup_duration_seconds''"
definition taskRunPodRampUpDuration_Help :: string where
  "taskRunPodRampUpDuration_Help =
     ''BuildRun taskrun pod ramp-up duration in seconds ''
     @ ''(time between pod creation and last init container completion).''"

definition InitPrometheus :: "config \<Rightarrow> metrics_state \<Rightarrow> panic + metrics_state" where
  "InitPrometheus config s0 =
     (if initialized s0 then Inr s0
      else
        let s1 = s0\<lparr>initialized := True\<rparr>;
            buildLabels = [];
            buildRunLabels = [];
            (buildLabels, buildRunLabels, s2) =
              (if contains (EnabledLabels config) BuildStrategyLabel
               then (buildLabels @ [BuildStrategyLabel], buildRunLabels @ [BuildStrategyLabel],
                     s1\<lparr>buildStrategyLabelEnabled := True\<rparr>)
               else (buildLabels, buildRunLabels, s1));
            (buildLabels, buildRunLabels, s3) =
              (if contains (EnabledLabels config) NamespaceLabel
               then (buildLabels @ [NamespaceLabel], buildRunLabels @ [NamespaceLabel],
                     s2\<lparr>namespaceLabelEnabled := True\<rparr>)
               else (buildLabels, buildRunLabels, s2));
            (buildLabels, buildRunLabels, s4) =
              (if contains (EnabledLabels config) BuildLabel
               then (buildLabels @ [BuildLabel], buildRunLabels @ [BuildLabel],
                     s3\<lparr>buildLabelEnabled := True\<rparr>)
               else (buildLabels, buildRunLabels, s3));
            (buildRunLabels, s5) =
              (if contains (EnabledLabels config) BuildRunLabel
               then (buildRunLabels @ [BuildRunLabel], s4\<lparr>buildRunLabelEnabled := True\<rparr>)
               else (buildRunLabels, s4));
            bc = NewCounterVec buildCount_Name buildCount_Help buildLabels;
            brc = NewCounterVec buildRunCount_Name buildRunCount_Help buildRunLabels;
            established = NewHistogramVec buildRunEstablishDuration_Name
                   buildRunEstablishDuration_Help
                   (BuildRunEstablishDurationBuckets config) buildRunLabels;
            completion = NewHistogramVec buildRunCompletionDuration_Name
                   buildRunCompletionDuration_Help
                   (BuildRunCompletionDurationBuckets config) buildRunLabels;
            rampUp = NewHistogramVec buildRunRampUpDuration_Name
                   buildRunRampUpDuration_Help
                   (BuildRunRampUpDurationBuckets config) buildRunLabels;
            taskRun = NewHistogramVec taskRunRampUpDuration_Name
                   taskRunRampUpDuration_Help
                   (BuildRunRampUpDurationBuckets config) buildRunLabels;
            taskRunPod = NewHistogramVec taskRunPodRampUpDuration_Name
                   taskRunPodRampUpDuration_Help
                   (BuildRunRampUpDurationBuckets config) buildRunLabels;
            s6 = s5\<lparr>buildCount := Some bc, buildRunCount := Some brc,
                    buildRunEstablishDuration := Some established,
                    buildRunCompletionDuration := Some completion,
                    buildRunRampUpDuration := Some rampUp,
                    taskRunRampUpDuration := Some taskRun,
                    taskRunPodRampUpDuration := Some taskRunPod\<rparr>
        in MustRegister
             [cv_Name bc, cv_Name brc, hv_Name established, hv_Name completion,
              hv_Name rampUp, hv_Name taskRun, hv_Name taskRunPod] s6)"

definition createBuildLabels :: "metrics_state \<Rightarrow> string \<Rightarrow> string \<Rightarrow> string \<Rightarrow> labels" where
  "createBuildLabels s buildStrategy namespace build =
     (let labels = [];
          labels = (if buildStrategyLabelEnabled s
                    then AList.update BuildStrategyLabel buildStrategy labels else labels);
          labels = (if namespaceLabelEnabled s
                    then AList.update NamespaceLabel namespace labels else labels);
          labels = (if buildLabelEnabled s
                    then AList.update BuildLabel build labels else labels)
      in labels)"

definition createBuildRunLabels ::
  "metrics_state \<Rightarrow> string \<Rightarrow> string \<Rightarrow> string \<Rightarrow> string \<Rightarrow> labels" where
  "createBuildRunLabels s buildStrategy namespace build buildRun =
     (let labels = [];
          labels = (if buildStrategyLabelEnabled s
                    then AList.update BuildStrategyLabel buildStrategy labels else labels);
          labels = (if namespaceLabelEnabled s
                    then AList.update NamespaceLabel namespace labels else labels);
          labels = (if buildLabelEnabled s
                    then AList.update BuildLabel build labels else labels);
          labels = (if buildRunLabelEnabled s
                    then AList.update BuildRunLabel buildRun labels else labels)
      in labels)"

definition BuildCountInc ::
  "string \<Rightarrow> string \<Rightarrow> string \<Rightarrow> metrics_state \<Rightarrow> panic + metrics_state" where
  "BuildCountInc buildStrategy namespace build s =
     (case buildCount s of
        None \<Rightarrow> Inr s
      | Some cv \<Rightarrow>
          (case With (cv_labelNames cv) (createBuildLabels s buildStrategy namespace build) of
             Inl p \<Rightarrow> Inl p
           | Inr lvs \<Rightarrow> Inr (s\<lparr>buildCount := Some (counter_Inc cv lvs)\<rparr>)))"

definition BuildRunCountInc ::
  "string \<Rightarrow> string \<Rightarrow> string \<Rightarrow> string \<Rightarrow> metrics_state \<Rightarrow> panic + metrics_state" where
  "BuildRunCountInc buildStrategy namespace build buildRun s =
     (case buildRunCount s of
        None \<Rightarrow> Inr s
      | Some cv \<Rightarrow>
          (case With (cv_labelNames cv)
                  (createBuildRunLabels s buildStrategy namespace build buildRun) of
             Inl p \<Rightarrow> Inl p
           | Inr lvs \<Rightarrow> Inr (s\<lparr>buildRunCount := Some (counter_Inc cv lvs)\<rparr>)))"

definition BuildRunEstablishObserve ::
  "string \<Rightarrow> string \<Rightarrow> string \<Rightarrow> string \<Rightarrow> int \<Rightarrow> metrics_state \<Rightarrow> panic + metrics_state" where
  "BuildRunEstablishObserve buildStrategy namespace build buildRun duration s =
     (case buildRunEstablishDuration s of
        None \<Rightarrow> Inr s
      | Some hv \<Rightarrow>
          (case histogram_With hv
                  (createBuildRunLabels s buildStrategy namespace build buildRun) of
             Inl p \<Rightarrow> Inl p
           | Inr lvs \<Rightarrow>
               Inr (s\<lparr>buildRunEstablishDuration :=
                        Some (histogram_Observe hv lvs (Seconds duration))\<rparr>)))"

definition BuildRunCompletionObserve ::
  "string \<Rightarrow> string \<Rightarrow> string \<Rightarrow> string \<Rightarrow> int \<Rightarrow> metrics_state \<Rightarrow> panic + metrics_state" where
  "BuildRunCompletionObserve buildStrategy namespace build buildRun duration s =
     (case buildRunCompletionDuration s of
        None \<Rightarrow> Inr s
      | Some hv \<Rightarrow>
          (case histogram_With hv
                  (createBuildRunLabels s buildStrategy namespace build buildRun) of
             Inl p \<Rightarrow> Inl p
           | Inr lvs \<Rightarrow>
               Inr (s\<lparr>buildRunCompletionDuration :=
                        Some (histogram_Observe hv lvs (Seconds duration))\<rparr>)))"

definition BuildRunRampUpDurationObserve ::
  "string \<Rightarrow> string \<Rightarrow> string \<Rightarrow> string \<Rightarrow> int \<Rightarrow> metrics_state \<Rightarrow> panic + metrics_state" where
  "BuildRunRampUpDurationObserve buildStrategy namespace build buildRun duration s =
     (case buildRunRampUpDuration s of
        None \<Rightarrow> Inr s
      | Some hv \<Rightarrow>
          (case histogram_With hv
                  (createBuildRunLabels s buildStrategy namespace build buildRun) of
             Inl p \<Rightarrow> Inl p
           | Inr lvs \<Rightarrow>
               Inr (s\<lparr>buildRunRampUpDuration :=
                        Some (histogram_Observe hv lvs (Seconds duration))\<rparr>)))"

definition TaskRunRampUpDurationObserve ::
  "string \<Rightarrow> string \<Rightarrow> string \<Rightarrow> string \<Rightarrow> int \<Rightarrow> metrics_state \<Rightarrow> panic + metrics_state" where
  "TaskRunRampUpDurationObserve buildStrategy namespace build buildRun duration s =
     (case taskRunRampUpDuration s of
        None \<Rightarrow> Inr s
      | Some hv \<Rightarrow>
          (case histogram_With hv
                  (createBuildRunLabels s buildStrategy namespace build buildRun) of
             Inl p \<Rightarrow> Inl p
           | Inr lvs \<Rightarrow>
               Inr (s\<lparr>taskRunRampUpDuration :=
                        Some (histogram_Observe hv lvs (Seconds duration))\<rparr>)))"

definition TaskRunPodRampUpDurationObserve ::
  "string \<Rightarrow> string \<Rightarrow> string \<Rightarrow> string \<Rightarrow> int \<Rightarrow> metrics_state \<Rightarrow> panic + metrics_state" where
  "TaskRunPodRampUpDurationObserve buildStrategy namespace build buildRun duration s =
     (case taskRunPodRampUpDuration s of
        None \<Rightarrow> Inr s
      | Some hv \<Rightarrow>
          (case histogram_With hv
                  (createBuildRunLabels s buildStrategy namespace build buildRun) of
             Inl p \<Rightarrow> Inl p
           | Inr lvs \<Rightarrow>
               Inr (s\<lparr>taskRunPodRampUpDuration :=
                        Some (histogram_Observe hv lvs (Seconds duration))\<rparr>)))"

section \<open>Sequences of calls into the package\<close>

text \<open>
  The callers of the package initialise it and record events in any order. A call is a
  value, and a program is a list of calls, run from left to right until one panics.
\<close>

datatype metric_call =
    CallInitPrometheus config
  | CallBuildCountInc string string string
  | CallBuildRunCountInc string string string string
  | CallBuildRunEstablishObserve string string string string int
  | CallBuildRunCompletionObserve string string string string int
  | CallBuildRunRampUpDurationObserve string string string string int
  | CallTaskRunRampUpDurationObserve string string string string int
  | CallTaskRunPodRampUpDurationObserve string string string string int

fun perform :: "metric_call \<Rightarrow> metrics_state \<Rightarrow> panic + metrics_state" where
  "perform (CallInitPrometheus config) s = InitPrometheus config s"
| "perform (CallBuildCountInc a b c) s = BuildCountInc a b c s"
| "perform (CallBuildRunCountInc a b c d) s = BuildRunCountInc a b c d s"
| "perform (CallBuildRunEstablishObserve a b c d t) s = BuildRunEstablishObserve a b c d t s"
| "perform (CallBuildRunCompletionObserve a b c d t) s = BuildRunCompletionObserve a b c d t s"
| "perform (CallBuildRunRampUpDurationObserve a b c d t) s =
     BuildRunRampUpDurationObserve a b c d t s"
| "perform (CallTaskRunRampUpDurationObserve a b c d t) s =
     TaskRunRampUpDurationObserve a b c d t s"
| "perform (CallTaskRunPodRampUpDurationObserve a b c d t) s =
     TaskRunPodRampUpDurationObserve a b c d t s"

fun perform_all :: "metric_call list \<Rightarrow> metrics_state \<Rightarrow> panic + metrics_state" where
  "perform_all [] s = Inr s"
| "perform_all (x # xs) s =
     (case perform x s of Inl p \<Rightarrow> Inl p | Inr s' \<Rightarrow> perform_all xs s')"

text \<open>
  The label keys that apply to the build counter and to the build-run instruments, and
  the selection of the enabled ones among them.
\<close>

definition buildLabelKeys :: "string list" where
  "buildLabelKeys = [BuildStrategyLabel, NamespaceLabel, BuildLabel]"

definition buildRunLabelKeys :: "string list" where
  "buildRunLabelKeys = [BuildStrategyLabel, NamespaceLabel, BuildLabel, BuildRunLabel]"

definition enabled_keys :: "config \<Rightarrow> string list \<Rightarrow> string list" where
  "enabled_keys config keys = filter (\<lambda>k. k \<in> set (EnabledLabels config)) keys"

definition enabled_labels :: "config \<Rightarrow> string list \<Rightarrow> string list \<Rightarrow> labels" where
  "enabled_labels config keys vals =
     filter (\<lambda>(k, v). k \<in> set (EnabledLabels config)) (zip keys vals)"

text \<open>The samples a histogram holds for a list of label values; none if it is nil.\<close>

definition samples :: "histogram_vec option \<Rightarrow> string list \<Rightarrow> real list" where
  "samples h lvs =
     (case h of
        None \<Rightarrow> []
      | Some hv \<Rightarrow> (case hv_children hv lvs of None \<Rightarrow> [] | Some vs \<Rightarrow> vs))"

text \<open>Whether a histogram has a child for a list of label values.\<close>

definition has_child :: "histogram_vec option \<Rightarrow> string list \<Rightarrow> bool" where
  "has_child h lvs = (case h of None \<Rightarrow> False | Some hv \<Rightarrow> hv_children hv lvs \<noteq> None)"

text \<open>
  The value a counter holds for a list of label values, zero if it is nil or has no
  such child, and this value in the state that a call returns; none if it panics.
\<close>

definition counted :: "counter_vec option \<Rightarrow> string list \<Rightarrow> nat" where
  "counted cnt lvs =
     (case cnt of
        None \<Rightarrow> 0
      | Some cv \<Rightarrow> (case cv_children cv lvs of None \<Rightarrow> 0 | Some n \<Rightarrow> n))"

definition counted_after ::
  "panic + metrics_state \<Rightarrow> (metrics_state \<Rightarrow> counter_vec option) \<Rightarrow> string list
     \<Rightarrow> nat option" where
  "counted_after result cnt lvs =
     (case result of Inl p \<Rightarrow> None | Inr s \<Rightarrow> Some (counted (cnt s) lvs))"

text \<open>The samples of a histogram in the state that a call returns; none if it panics.\<close>

definition samples_after ::
  "panic + metrics_state \<Rightarrow> (metrics_state \<Rightarrow> histogram_vec option) \<Rightarrow> string list
     \<Rightarrow> real list option" where
  "samples_after result h lvs =
     (case result of Inl p \<Rightarrow> None | Inr s \<Rightarrow> Some (samples (h s) lvs))"

text \<open>
  The state that \<^verbatim>\<open>InitPrometheus\<close> builds for a configuration before it registers the
  instruments, the names it registers, and what it means that a state carries the label
  configuration: the four flags and the label names of the seven instruments are those
  the configuration enables.
\<close>

definition configured :: "config \<Rightarrow> string list \<Rightarrow> metrics_state" where
  "configured config reg =
     \<lparr>buildCount = Some (NewCounterVec buildCount_Name buildCount_Help
                   (enabled_keys config buildLabelKeys)),
      buildRunCount = Some (NewCounterVec buildRunCount_Name buildRunCount_Help
                   (enabled_keys config buildRunLabelKeys)),
      buildRunEstablishDuration =
        Some (NewHistogramVec buildRunEstablishDuration_Name buildRunEstablishDuration_Help
                   (BuildRunEstablishDurationBuckets config)
                   (enabled_keys config buildRunLabelKeys)),
      buildRunCompletionDuration =
        Some (NewHistogramVec buildRunCompletionDuration_Name buildRunCompletionDuration_Help
                   (BuildRunCompletionDurationBuckets config)
                   (enabled_keys config buildRunLabelKeys)),
      buildRunRampUpDuration =
        Some (NewHistogramVec buildRunRampUpDuration_Name buildRunRampUpDuration_Help
                   (BuildRunRampUpDurationBuckets config)
                   (enabled_keys config buildRunLabelKeys)),
      taskRunRampUpDuration =
        Some (NewHistogramVec taskRunRampUpDuration_Name taskRunRampUpDuration_Help
                   (BuildRunRampUpDurationBuckets config)
                   (enabled_keys config buildRunLabelKeys)),
      taskRunPodRampUpDuration =
        Some (NewHistogramVec taskRunPodRampUpDuration_Name taskRunPodRampUpDuration_Help
                   (BuildRunRampUpDurationBuckets config)
                   (enabled_keys config buildRunLabelKeys)),
      buildStrategyLabelEnabled = (BuildStrategyLabel \<in> set (EnabledLabels config)),
      namespaceLabelEnabled = (NamespaceLabel \<in> set (EnabledLabels config)),
      buildLabelEnabled = (BuildLabel \<in> set (EnabledLabels config)),
      buildRunLabelEnabled = (BuildRunLabel \<in> set (EnabledLabels config)),
      initialized = True, registry = reg\<rparr>"

definition instrument_names :: "string list" where
  "instrument_names =
     [buildCount_Name, buildRunCount_Name, buildRunEstablishDuration_Name,
      buildRunCompletionDuration_Name, buildRunRampUpDuration_Name,
      taskRunRampUpDuration_Name, taskRunPodRampUpDuration_Name]"

definition label_config_applied :: "config \<Rightarrow> metrics_state \<Rightarrow> bool" where
  "label_config_applied config s \<longleftrightarrow>
     initialized s
     \<and> buildStrategyLabelEnabled s = (BuildStrategyLabel \<in> set (EnabledLabels config))
     \<and> namespaceLabelEnabled s = (NamespaceLabel \<in> set (EnabledLabels config))
     \<and> buildLabelEnabled s = (BuildLabel \<in> set (EnabledLabels config))
     \<and> buildRunLabelEnabled s = (BuildRunLabel \<in> set (EnabledLabels config))
     \<and> map_option cv_labelNames (buildCount s) = Some (enabled_keys config buildLabelKeys)
     \<and> map_option cv_labelNames (buildRunCount s) = Some (enabled_keys config buildRunLabelKeys)
     \<and> map_option hv_labelNames (buildRunEstablishDuration s)
         = Some (enabled_keys config buildRunLabelKeys)
     \<and> map_option hv_labelNames (buildRunCompletionDuration s)
         = Some (enabled_keys config buildRunLabelKeys)
     \<and> map_option hv_labelNames (buildRunRampUpDuration s)
         = Some (enabled_keys config buildRunLabelKeys)
     \<and> map_option hv_labelNames (taskRunRampUpDuration s)
         = Some (enabled_keys config buildRunLabelKeys)
     \<and> map_option hv_labelNames (taskRunPodRampUpDuration s)
         = Some (enabled_keys config buildRunLabelKeys)
     \<and> map_option hv_Buckets (buildRunEstablishDuration s)
         = Some (BuildRunEstablishDurationBuckets config)
     \<and> map_option hv_Buckets (buildRunCompletionDuration s)
         = Some (BuildRunCompletionDurationBuckets config)
     \<and> map_option hv_Buckets (buildRunRampUpDuration s)
         = Some (BuildRunRampUpDurationBuckets config)
     \<and> map_option hv_Buckets (taskRunRampUpDuration s)
         = Some (BuildRunRampUpDurationBuckets config)
     \<and> map_option hv_Buckets (taskRunPodRampUpDuration s)
         = Some (BuildRunRampUpDurationBuckets config)"

text \<open>The label values of a call, in the order of the enabled keys: the key of the child.\<close>

definition buildLabelValues :: "config \<Rightarrow> string \<Rightarrow> string \<Rightarrow> string \<Rightarrow> string list" where
  "buildLabelValues config a b c = map snd (enabled_labels config buildLabelKeys [a, b, c])"

definition buildRunLabelValues ::
  "config \<Rightarrow> string \<Rightarrow> string \<Rightarrow> string \<Rightarrow> string \<Rightarrow> string list" where
  "buildRunLabelValues config a b c d =
     map snd (enabled_labels config buildRunLabelKeys [a, b, c, d])"

section \<open>The graph that the resolver walks\<close>

text \<open>
  From an owner reference, the resolver fetches the object of that name and kind in the
  namespace of the Pod and goes on to its controller reference. These are the edges of
  the graph of controller owners as the resolver sees it in a store. A chain ends when it
  reaches a reference whose fetch fails or whose object has no controller.
\<close>

definition next_owner ::
  "'w client \<Rightarrow> 'w \<Rightarrow> string \<Rightarrow> owner_reference \<Rightarrow> owner_reference option" where
  "next_owner c w ns r =
     (case Get c (owner_key ns r) w of Inl err \<Rightarrow> None | Inr obj \<Rightarrow> GetControllerOf obj)"

definition owner_edges ::
  "'w client \<Rightarrow> 'w \<Rightarrow> string \<Rightarrow> (owner_reference \<times> owner_reference) set" where
  "owner_edges c w ns = {(r, r'). next_owner c w ns r = Some r'}"

inductive chain_ends :: "'w client \<Rightarrow> 'w \<Rightarrow> string \<Rightarrow> owner_reference \<Rightarrow> bool"
  for c :: "'w client" and w :: 'w and ns :: string where
  last: "next_owner c w ns r = None \<Longrightarrow> chain_ends c w ns r"
| hop: "next_owner c w ns r = Some r' \<Longrightarrow> chain_ends c w ns r' \<Longrightarrow> chain_ends c w ns r"

section \<open>Concrete clusters and configurations\<close>

text \<open>
  A controller Pod owned by a ReplicaSet owned by a Deployment, all in one namespace;
  the Pod as the typed client returns it, without API version and kind.
\<close>

definition ex_ns :: string where "ex_ns = ''shipwright-build''"

definition ex_podName :: string where "ex_podName = ''controller-5d8f-x2k''"

definition ex_env :: "string \<rightharpoonup> string" where
  "ex_env = [PodNameEnvVar \<mapsto> ex_podName]"

definition ex_deployment_ref :: owner_reference where
  "ex_deployment_ref =
     \<lparr>ref_APIVersion = ''apps/v1'', ref_Kind = ''Deployment'', ref_Name = ''controller'',
      ref_UID = ''uid-d'', ref_Controller = Some True, ref_BlockOwnerDeletion = Some True\<rparr>"

definition ex_replicaset_ref :: owner_reference where
  "ex_replicaset_ref =
     \<lparr>ref_APIVersion = ''apps/v1'', ref_Kind = ''ReplicaSet'', ref_Name = ''controller-5d8f'',
      ref_UID = ''uid-r'', ref_Controller = Some True, ref_BlockOwnerDeletion = Some True\<rparr>"

definition ex_deployment :: k8s_object where
  "ex_deployment =
     \<lparr>obj_APIVersion = ''apps/v1'', obj_Kind = ''Deployment'', obj_Name = ''controller'',
      obj_Namespace = ex_ns, obj_UID = ''uid-d'', obj_OwnerReferences = []\<rparr>"

definition ex_replicaset :: k8s_object where
  "ex_replicaset =
     \<lparr>obj_APIVersion = ''apps/v1'', obj_Kind = ''ReplicaSet'', obj_Name = ''controller-5d8f'',
      obj_Namespace = ex_ns, obj_UID = ''uid-r'', obj_OwnerReferences = [ex_deployment_ref]\<rparr>"

definition ex_pod :: k8s_object where
  "ex_pod =
     \<lparr>obj_APIVersion = [], obj_Kind = [], obj_Name = ex_podName,
      obj_Namespace = ex_ns, obj_UID = ''uid-p'', obj_OwnerReferences = [ex_replicaset_ref]\<rparr>"

definition ex_cluster :: "mem_store cluster" where
  "ex_cluster =
     \<lparr>store = \<lparr>mem_objects =
                  [(pod_key ex_ns ex_podName, ex_pod),
                   (owner_key ex_ns ex_replicaset_ref, ex_replicaset),
                   (owner_key ex_ns ex_deployment_ref, ex_deployment)],
               mem_services = []\<rparr>,
      calls = []\<rparr>"

text \<open>A Pod whose only owner reference is not marked as controller.\<close>

definition ex_lonely_pod :: k8s_object where
  "ex_lonely_pod =
     ex_pod\<lparr>obj_OwnerReferences := [ex_replicaset_ref\<lparr>ref_Controller := None\<rparr>]\<rparr>"

definition ex_lonely_cluster :: "mem_store cluster" where
  "ex_lonely_cluster =
     \<lparr>store = \<lparr>mem_objects = [(pod_key ex_ns ex_podName, ex_lonely_pod)],
               mem_services = []\<rparr>,
      calls = []\<rparr>"

text \<open>The ReplicaSet of the Pod is kept in another namespace.\<close>

definition ex_elsewhere_replicaset :: k8s_object where
  "ex_elsewhere_replicaset = ex_replicaset\<lparr>obj_Namespace := ''elsewhere''\<rparr>"

definition ex_foreign_cluster :: "mem_store cluster" where
  "ex_foreign_cluster =
     \<lparr>store = \<lparr>mem_objects =
                  [(pod_key ex_ns ex_podName, ex_pod),
                   (owner_key ''elsewhere'' ex_replicaset_ref, ex_elsewhere_replicaset)],
               mem_services = []\<rparr>,
      calls = []\<rparr>"

text \<open>
  The same, with another ReplicaSet of the same name, which nobody controls, in the
  namespace of the Pod.
\<close>

definition ex_shadow_replicaset :: k8s_object where
  "ex_shadow_replicaset =
     \<lparr>obj_APIVersion = ''apps/v1'', obj_Kind = ''ReplicaSet'', obj_Name = ''controller-5d8f'',
      obj_Namespace = ex_ns, obj_UID = ''uid-shadow'', obj_OwnerReferences = []\<rparr>"

definition ex_shadow_cluster :: "mem_store cluster" where
  "ex_shadow_cluster =
     \<lparr>store = \<lparr>mem_objects =
                  [(pod_key ex_ns ex_podName, ex_pod),
                   (owner_key ''elsewhere'' ex_replicaset_ref, ex_elsewhere_replicaset),
                   (owner_key ex_ns ex_replicaset_ref, ex_shadow_replicaset)],
               mem_services = []\<rparr>,
      calls = []\<rparr>"

text \<open>A ReplicaSet that names itself as its controller.\<close>

definition ex_cyclic_cluster :: "mem_store cluster" where
  "ex_cyclic_cluster =
     \<lparr>store = \<lparr>mem_objects =
                  [(pod_key ex_ns ex_podName, ex_pod),
                   (owner_key ex_ns ex_replicaset_ref,
                    ex_replicaset\<lparr>obj_OwnerReferences := [ex_replicaset_ref]\<rparr>)],
               mem_services = []\<rparr>,
      calls = []\<rparr>"

text \<open>A metrics service, and a cluster in which it exists with an address of its own.\<close>

definition ex_service :: service where
  "ex_service =
     \<lparr>svc_Name = BuildControllerName @ ''-metrics'', svc_Namespace = ex_ns,
      svc_Labels = [(''name'', BuildControllerName)], svc_ResourceVersion = [],
      svc_OwnerReferences = [ex_deployment_ref],
      svc_Ports = [\<lparr>port_Name = ''http-metrics'', port_Port = 8383\<rparr>],
      svc_Selector = [(''name'', BuildControllerName)],
      svc_Type = [], svc_ClusterIP = []\<rparr>"

definition ex_existing_service :: service where
  "ex_existing_service =
     ex_service\<lparr>svc_ResourceVersion := ''41'', svc_Type := ServiceTypeClusterIP,
                svc_ClusterIP := ''10.0.0.7'', svc_Ports := []\<rparr>"

definition ex_published_cluster :: "mem_store cluster" where
  "ex_published_cluster =
     \<lparr>store = \<lparr>mem_objects = [],
               mem_services = [(service_key ex_service, ex_existing_service)]\<rparr>,
      calls = []\<rparr>"

text \<open>A client whose Create fails for a reason of its own.\<close>

definition ex_forbidding_client :: "mem_store client" where
  "ex_forbidding_client = mem_client\<lparr>Create := (\<lambda>s w. (Inl (StatusError Forbidden), w))\<rparr>"

text \<open>Two configurations with different enabled labels.\<close>

definition ex_config1 :: config where
  "ex_config1 =
     \<lparr>EnabledLabels = [BuildStrategyLabel, NamespaceLabel],
      BuildRunEstablishDurationBuckets = [0, 1, 2, 3, 5, 7, 10, 15, 20, 30],
      BuildRunCompletionDurationBuckets = [50, 100, 150, 200, 250, 300, 350, 400, 450, 500],
      BuildRunRampUpDurationBuckets = [0, 1, 2, 3, 4, 5, 6, 7, 8, 9, 10],
      LeaderElectionNamespace = ex_ns\<rparr>"

definition ex_config2 :: config where
  "ex_config2 = ex_config1\<lparr>EnabledLabels := [BuildRunLabel, BuildLabel]\<rparr>"

text \<open>The state after the package was initialised with the first one in an empty registry.\<close>

definition ex_initialized :: metrics_state where
  "ex_initialized = (configured ex_config1 [])\<lparr>registry := instrument_names\<rparr>"

text \<open>The state after one completed build run was counted in it.\<close>

definition ex_counted :: metrics_state where
  "ex_counted =
     ex_initialized\<lparr>buildRunCount :=
       Some (counter_Inc
               (NewCounterVec buildRunCount_Name buildRunCount_Help
                  [BuildStrategyLabel, NamespaceLabel])
               [''buildah'', ''team-a''])\<rparr>"

section \<open>Lemmas about the resolver\<close>


lemma findFinalOwnerRef_None:
  "findFinalOwnerRef c ns None st = Some (Inr None, st)"
  by (subst findFinalOwnerRef.simps) simp

lemma findFinalOwnerRef_Some:
  "findFinalOwnerRef c ns (Some r) st =
     (case Get c (owner_key ns r) (store st) of
        Inl err \<Rightarrow> Some (Inl err, st\<lparr>calls := calls st @ [GetCall (owner_key ns r)]\<rparr>)
      | Inr obj \<Rightarrow>
          (case GetControllerOf obj of
             Some newOwnerRef \<Rightarrow>
               findFinalOwnerRef c ns (Some newOwnerRef)
                 (st\<lparr>calls := calls st @ [GetCall (owner_key ns r)]\<rparr>)
           | None \<Rightarrow> Some (Inr (Some r), st\<lparr>calls := calls st @ [GetCall (owner_key ns r)]\<rparr>)))"
  by (subst findFinalOwnerRef.simps) (simp add: client_Get_def split: sum.splits option.splits)

lemma GetControllerOf_TypeMeta:
  "GetControllerOf (obj\<lparr>obj_APIVersion := v, obj_Kind := k\<rparr>) = GetControllerOf obj"
  by (simp add: GetControllerOf_def)

lemma getPodOwnerRef_fetched:
  assumes "Getenv env PodNameEnvVar = podName" and "podName \<noteq> []"
    and "Get c (pod_key ns podName) (store st) = Inr pod"
  shows "getPodOwnerRef env c ns st =
     (case findFinalOwnerRef c ns (GetControllerOf pod)
             (st\<lparr>calls := calls st @ [GetCall (pod_key ns podName)]\<rparr>) of
        None \<Rightarrow> None
      | Some (Inl err, st2) \<Rightarrow> Some (Inl err, st2)
      | Some (Inr (Some finalOwnerRef), st2) \<Rightarrow> Some (Inr finalOwnerRef, st2)
      | Some (Inr None, st2) \<Rightarrow>
          Some (Inr (NewControllerRef (pod\<lparr>obj_APIVersion := ''v1'', obj_Kind := ''Pod''\<rparr>)
                       (GroupVersionKind (pod\<lparr>obj_APIVersion := ''v1'', obj_Kind := ''Pod''\<rparr>))),
                st2))"
  using assms
  by (simp add: getPodOwnerRef_def client_Get_def GetControllerOf_TypeMeta Let_def)


lemma findFinalOwnerRef_chain_ends:
  assumes "findFinalOwnerRef (c :: 'a client) ns ownerRef st = Some y"
  shows "\<forall>r. ownerRef = Some r \<longrightarrow> chain_ends c (store st) ns r"
proof (rule findFinalOwnerRef.raw_induct [where
        P = "\<lambda>c ns ownerRef st y. \<forall>r. ownerRef = Some r \<longrightarrow> chain_ends c (store st) ns r",
        OF _ assms])
  fix f :: "'a client \<Rightarrow> string \<Rightarrow> owner_reference option \<Rightarrow> 'a cluster
      \<Rightarrow> ((error + owner_reference option) \<times> 'a cluster) option"
    and c :: "'a client" and ns ownerRef and st :: "'a cluster" and y
  assume IH: "\<And>c ns ownerRef st y. f c ns ownerRef st = Some y \<Longrightarrow>
      \<forall>r. ownerRef = Some r \<longrightarrow> chain_ends c (store st) ns r"
  assume body: "(case ownerRef of
        None \<Rightarrow> Some (Inr None, st)
      | Some r \<Rightarrow>
          (case client_Get c (owner_key ns r) st of
             (Inl err, st') \<Rightarrow> Some (Inl err, st')
           | (Inr obj, st') \<Rightarrow>
               (case GetControllerOf obj of
                  None \<Rightarrow> Some (Inr (Some r), st')
                | Some newOwnerRef \<Rightarrow> f c ns (Some newOwnerRef) st'))) = Some y"
  show "\<forall>r. ownerRef = Some r \<longrightarrow> chain_ends c (store st) ns r"
  proof (intro allI impI)
    fix r assume r: "ownerRef = Some r"
    show "chain_ends c (store st) ns r"
    proof (cases "next_owner c (store st) ns r")
      case None
      then show ?thesis by (rule chain_ends.last)
    next
      case (Some r')
      then obtain obj where obj: "Get c (owner_key ns r) (store st) = Inr obj"
          "GetControllerOf obj = Some r'"
        by (auto simp: next_owner_def split: sum.splits)
      with r body
      have "f c ns (Some r') (st\<lparr>calls := calls st @ [GetCall (owner_key ns r)]\<rparr>) = Some y"
        by (simp add: client_Get_def)
      from IH [OF this] have "chain_ends c (store st) ns r'" by simp
      with Some show ?thesis by (rule chain_ends.hop)
    qed
  qed
qed

lemma chain_ends_returns:
  "chain_ends c w ns r \<Longrightarrow> store st = w \<Longrightarrow> \<exists>y. findFinalOwnerRef c ns (Some r) st = Some y"
proof (induction r arbitrary: st rule: chain_ends.induct)
  case (last r)
  then show ?case
    by (auto simp: findFinalOwnerRef_Some next_owner_def split: sum.splits option.splits)
next
  case (hop r r')
  from hop.hyps(1) hop.prems obtain obj where "Get c (owner_key ns r) (store st) = Inr obj"
      "GetControllerOf obj = Some r'"
    by (auto simp: next_owner_def split: sum.splits)
  moreover have "\<exists>y. findFinalOwnerRef c ns (Some r')
      (st\<lparr>calls := calls st @ [GetCall (owner_key ns r)]\<rparr>) = Some y"
    by (rule hop.IH) (simp add: hop.prems)
  ultimately show ?case
    by (simp add: findFinalOwnerRef_Some)
qed

lemma owner_edges_iff: "(r, r') \<in> owner_edges c w ns \<longleftrightarrow> next_owner c w ns r = Some r'"
  by (simp add: owner_edges_def)

lemma finite_acyclic_chain_ends:
  assumes fin: "finite ((owner_edges c w ns)\<^sup>* `` {r0})"
    and acyc: "\<forall>r\<in>(owner_edges c w ns)\<^sup>* `` {r0}. (r, r) \<notin> (owner_edges c w ns)\<^sup>+"
  shows "chain_ends c w ns r0"
proof -
  let ?E = "owner_edges c w ns"
  let ?S = "?E\<^sup>* `` {r0}"
  let ?R = "?E \<inter> ?S \<times> ?S"
  have "finite ?R" using fin by simp
  moreover have "acyclic ?R"
  proof (unfold acyclic_def, intro allI notI)
    fix x assume x: "(x, x) \<in> ?R\<^sup>+"
    then have "(x, x) \<in> ?E\<^sup>+"
      by (rule trancl_mono) simp
    moreover from x have "x \<in> ?S"
      by (auto dest: tranclD)
    ultimately show False using acyc by blast
  qed
  ultimately have "wf (?R\<inverse>)" by (rule finite_acyclic_wf_converse)
  then have "r \<in> ?S \<longrightarrow> chain_ends c w ns r" for r
  proof (induction r rule: wf_induct_rule)
    case (less r)
    show ?case
    proof
      assume r: "r \<in> ?S"
      show "chain_ends c w ns r"
      proof (cases "next_owner c w ns r")
        case None
        then show ?thesis by (rule chain_ends.last)
      next
        case (Some r')
        then have edge: "(r, r') \<in> ?E" by (simp add: owner_edges_iff)
        with r have "r' \<in> ?S" by (auto intro: rtrancl_into_rtrancl)
        with r edge have "(r', r) \<in> ?R\<inverse>" by simp
        from less.IH [OF this] \<open>r' \<in> ?S\<close> have "chain_ends c w ns r'" by simp
        with Some show ?thesis by (rule chain_ends.hop)
      qed
    qed
  qed
  then show ?thesis by simp
qed

lemma chain_ends_finite_acyclic:
  "chain_ends c w ns r \<Longrightarrow>
     finite ((owner_edges c w ns)\<^sup>* `` {r}) \<and>
     (\<forall>r'\<in>(owner_edges c w ns)\<^sup>* `` {r}. (r', r') \<notin> (owner_edges c w ns)\<^sup>+)"
proof (induction r rule: chain_ends.induct)
  case (last r)
  let ?E = "owner_edges c w ns"
  from last have no: "(r, x) \<notin> ?E" for x by (simp add: owner_edges_iff)
  have "?E\<^sup>* `` {r} = {r}"
    using no by (auto elim: converse_rtranclE)
  moreover have "(r, r) \<notin> ?E\<^sup>+"
    using no by (auto dest: tranclD)
  ultimately show ?case by simp
next
  case (hop r r1)
  let ?E = "owner_edges c w ns"
  from hop.hyps have only: "(r, x) \<in> ?E \<longleftrightarrow> x = r1" for x
    by (auto simp: owner_edges_iff)
  have reach: "?E\<^sup>* `` {r} = insert r (?E\<^sup>* `` {r1})"
  proof (intro equalityI subsetI)
    fix x assume "x \<in> ?E\<^sup>* `` {r}"
    then have "(r, x) \<in> ?E\<^sup>*" by simp
    then show "x \<in> insert r (?E\<^sup>* `` {r1})"
      by (cases rule: converse_rtranclE) (auto simp: only)
  next
    fix x assume "x \<in> insert r (?E\<^sup>* `` {r1})"
    then show "x \<in> ?E\<^sup>* `` {r}"
      using only [of r1] by (auto intro: converse_rtrancl_into_rtrancl)
  qed
  have "(r, r) \<notin> ?E\<^sup>+"
  proof
    assume "(r, r) \<in> ?E\<^sup>+"
    then obtain z where "(r, z) \<in> ?E" "(z, r) \<in> ?E\<^sup>*" by (auto dest: tranclD)
    then have "r \<in> ?E\<^sup>* `` {r1}" by (simp add: only)
    with hop.IH \<open>(r, r) \<in> ?E\<^sup>+\<close> show False by blast
  qed
  with hop.IH reach show ?case by simp
qed



section \<open>Lemmas about the metrics package\<close>


lemma contains_iff: "contains slice element \<longleftrightarrow> element \<in> set slice"
  by (induction slice) auto

lemma MustRegister_Inr:
  "MustRegister ns s = Inr s' \<Longrightarrow> s' = s\<lparr>registry := registry s @ ns\<rparr>"
proof (induction ns arbitrary: s)
  case Nil
  then show ?case by simp
next
  case (Cons n ns)
  from Cons.prems have "MustRegister ns (s\<lparr>registry := registry s @ [n]\<rparr>) = Inr s'"
    by (simp split: if_splits)
  from Cons.IH [OF this] show ?case by simp
qed

lemma InitPrometheus_initial:
  "InitPrometheus config (initial_state reg) =
     MustRegister instrument_names (configured config reg)"
  unfolding InitPrometheus_def initial_state_def configured_def enabled_keys_def
    buildLabelKeys_def buildRunLabelKeys_def contains_iff NewCounterVec_def NewHistogramVec_def
    instrument_names_def
  by (simp add: Let_def)

lemma label_config_applied_registry:
  "label_config_applied config (s\<lparr>registry := r\<rparr>) = label_config_applied config s"
  by (simp add: label_config_applied_def)

lemma configured_applied: "label_config_applied config (configured config reg)"
  by (simp add: label_config_applied_def configured_def NewCounterVec_def NewHistogramVec_def)

lemma InitPrometheus_initial_Inr:
  assumes "InitPrometheus config (initial_state reg) = Inr s"
  shows "s = (configured config reg)\<lparr>registry := reg @ instrument_names\<rparr>"
proof -
  from assms have "MustRegister instrument_names (configured config reg) = Inr s"
    by (simp add: InitPrometheus_initial)
  from MustRegister_Inr [OF this] show ?thesis by (simp add: configured_def)
qed

lemma InitPrometheus_initial_applied:
  "InitPrometheus config (initial_state reg) = Inr s \<Longrightarrow> label_config_applied config s"
  by (drule InitPrometheus_initial_Inr)
     (simp add: label_config_applied_registry configured_applied)

lemma label_keys_distinct: "distinct buildLabelKeys" "distinct buildRunLabelKeys"
  by (simp_all add: buildLabelKeys_def buildRunLabelKeys_def BuildStrategyLabel_def
      NamespaceLabel_def BuildLabel_def BuildRunLabel_def)

lemma createBuildLabels_applied:
  "label_config_applied config s \<Longrightarrow>
     createBuildLabels s a b c = enabled_labels config buildLabelKeys [a, b, c]"
  by (simp add: label_config_applied_def createBuildLabels_def enabled_labels_def
      buildLabelKeys_def BuildStrategyLabel_def NamespaceLabel_def BuildLabel_def)

lemma createBuildRunLabels_applied:
  "label_config_applied config s \<Longrightarrow>
     createBuildRunLabels s a b c d = enabled_labels config buildRunLabelKeys [a, b, c, d]"
  by (simp add: label_config_applied_def createBuildRunLabels_def enabled_labels_def
      buildRunLabelKeys_def BuildStrategyLabel_def NamespaceLabel_def BuildLabel_def
      BuildRunLabel_def)

lemma enabled_labels_keys:
  "length keys = length vals \<Longrightarrow>
     map fst (enabled_labels config keys vals) = enabled_keys config keys"
  by (induction keys vals rule: list_induct2)
     (simp_all add: enabled_labels_def enabled_keys_def)

lemma labelValues_lookup:
  "set names \<subseteq> fst ` set L \<Longrightarrow> labelValues names L = Inr (map (\<lambda>n. the (map_of L n)) names)"
proof (induction names)
  case Nil
  then show ?case by simp
next
  case (Cons n names)
  then have "n \<in> fst ` set L" by simp
  then have "map_of L n \<noteq> None" by (simp add: map_of_eq_None_iff)
  then obtain v where "map_of L n = Some v" by blast
  with Cons show ?case by simp
qed

lemma values_valid:
  "list_all (\<lambda>(name, val). ValidString val) L = list_all ValidString (map snd L)"
  by (induction L) auto

lemma With_own_keys:
  assumes "distinct (map fst L)"
  shows "With (map fst L) L
           = (if list_all ValidString (map snd L) then Inr (map snd L) else Inl InvalidUTF8)"
proof -
  have "map (\<lambda>n. the (map_of L n)) (map fst L) = map snd L"
    using assms by (auto simp: map_of_eq_Some_iff [THEN iffD2])
  then show ?thesis
    by (simp add: With_def labelValues_lookup values_valid)
qed

lemma With_enabled:
  assumes "distinct keys" and "length keys = length vals"
  shows "With (enabled_keys config keys) (enabled_labels config keys vals)
           = (if list_all ValidString (map snd (enabled_labels config keys vals))
              then Inr (map snd (enabled_labels config keys vals)) else Inl InvalidUTF8)"
proof -
  have "distinct (enabled_keys config keys)"
    using assms(1) by (simp add: enabled_keys_def)
  then have "distinct (map fst (enabled_labels config keys vals))"
    by (simp add: enabled_labels_keys [OF assms(2)])
  from With_own_keys [OF this] show ?thesis
    by (simp add: enabled_labels_keys [OF assms(2)])
qed

lemma With_buildLabels:
  assumes "label_config_applied config s"
  shows "With (enabled_keys config buildLabelKeys) (createBuildLabels s a b c)
           = (if list_all ValidString (buildLabelValues config a b c)
              then Inr (buildLabelValues config a b c) else Inl InvalidUTF8)"
proof -
  have "length buildLabelKeys = length [a, b, c]"
    by (simp add: buildLabelKeys_def)
  from With_enabled [OF label_keys_distinct(1) this] show ?thesis
    by (simp add: createBuildLabels_applied [OF assms] buildLabelValues_def)
qed

lemma With_buildRunLabels:
  assumes "label_config_applied config s"
  shows "With (enabled_keys config buildRunLabelKeys) (createBuildRunLabels s a b c d)
           = (if list_all ValidString (buildRunLabelValues config a b c d)
              then Inr (buildRunLabelValues config a b c d) else Inl InvalidUTF8)"
proof -
  have "length buildRunLabelKeys = length [a, b, c, d]"
    by (simp add: buildRunLabelKeys_def)
  from With_enabled [OF label_keys_distinct(2) this] show ?thesis
    by (simp add: createBuildRunLabels_applied [OF assms] buildRunLabelValues_def)
qed

lemma zip_enabled:
  "length keys = length vals \<Longrightarrow>
     zip (enabled_keys config keys) (map snd (enabled_labels config keys vals))
       = enabled_labels config keys vals"
  by (induction keys vals rule: list_induct2)
     (simp_all add: enabled_labels_def enabled_keys_def)

lemma BuildCountInc_applied:
  assumes "label_config_applied config s"
  shows "BuildCountInc a b c s
           = (if list_all ValidString (buildLabelValues config a b c)
              then Inr (s\<lparr>buildCount :=
                          map_option (\<lambda>cv. counter_Inc cv (buildLabelValues config a b c))
                            (buildCount s)\<rparr>)
              else Inl InvalidUTF8)"
proof -
  from assms obtain cv where cv: "buildCount s = Some cv"
      "cv_labelNames cv = enabled_keys config buildLabelKeys"
    by (auto simp: label_config_applied_def)
  then show ?thesis
    by (simp add: BuildCountInc_def With_buildLabels [OF assms])
qed

lemma BuildRunCountInc_applied:
  assumes "label_config_applied config s"
  shows "BuildRunCountInc a b c d s
           = (if list_all ValidString (buildRunLabelValues config a b c d)
              then Inr (s\<lparr>buildRunCount :=
                          map_option (\<lambda>cv. counter_Inc cv (buildRunLabelValues config a b c d))
                            (buildRunCount s)\<rparr>)
              else Inl InvalidUTF8)"
proof -
  from assms obtain cv where cv: "buildRunCount s = Some cv"
      "cv_labelNames cv = enabled_keys config buildRunLabelKeys"
    by (auto simp: label_config_applied_def)
  then show ?thesis
    by (simp add: BuildRunCountInc_def With_buildRunLabels [OF assms])
qed

lemma counted_Inc:
  "counted (map_option (\<lambda>cv. counter_Inc cv lvs) (Some cv)) lvs = counted (Some cv) lvs + 1"
  by (simp add: counted_def counter_Inc_def split: option.splits)

lemma BuildCountInc_counted:
  assumes "label_config_applied config s"
  shows "counted_after (BuildCountInc a b c s) buildCount (buildLabelValues config a b c)
           = (if list_all ValidString (buildLabelValues config a b c)
              then Some (counted (buildCount s) (buildLabelValues config a b c) + 1)
              else None)"
proof -
  from assms obtain cv where "buildCount s = Some cv"
    by (auto simp: label_config_applied_def)
  then show ?thesis
    using counted_Inc [of "buildLabelValues config a b c" cv]
    by (simp add: BuildCountInc_applied [OF assms] counted_after_def)
qed

lemma BuildRunCountInc_counted:
  assumes "label_config_applied config s"
  shows "counted_after (BuildRunCountInc a b c d s) buildRunCount
             (buildRunLabelValues config a b c d)
           = (if list_all ValidString (buildRunLabelValues config a b c d)
              then Some (counted (buildRunCount s) (buildRunLabelValues config a b c d) + 1)
              else None)"
proof -
  from assms obtain cv where "buildRunCount s = Some cv"
    by (auto simp: label_config_applied_def)
  then show ?thesis
    using counted_Inc [of "buildRunLabelValues config a b c d" cv]
    by (simp add: BuildRunCountInc_applied [OF assms] counted_after_def)
qed

lemma BuildRunEstablishObserve_applied:
  assumes "label_config_applied config s"
  shows "BuildRunEstablishObserve a b c d t s
           = (if \<not> list_all ValidString (buildRunLabelValues config a b c d)
              then Inl InvalidUTF8
              else if \<not> has_child (buildRunEstablishDuration s) (buildRunLabelValues config a b c d)
                      \<and> \<not> increasing (BuildRunEstablishDurationBuckets config)
              then Inl BucketsNotIncreasing
              else Inr (s\<lparr>buildRunEstablishDuration :=
                          map_option
                            (\<lambda>hv. histogram_Observe hv (buildRunLabelValues config a b c d)
                                    (Seconds t))
                            (buildRunEstablishDuration s)\<rparr>))"
proof -
  from assms obtain hv where hv: "buildRunEstablishDuration s = Some hv"
      "hv_labelNames hv = enabled_keys config buildRunLabelKeys"
      "hv_Buckets hv = BuildRunEstablishDurationBuckets config"
    by (auto simp: label_config_applied_def)
  then show ?thesis
    by (simp add: BuildRunEstablishObserve_def histogram_With_def has_child_def
        With_buildRunLabels [OF assms])
qed

lemma BuildRunEstablishObserve_preserves:
  assumes "label_config_applied config s" and "BuildRunEstablishObserve a b c d t s = Inr s'"
  shows "label_config_applied config s'"
proof -
  from assms(1) obtain hv where hv: "buildRunEstablishDuration s = Some hv"
    by (auto simp: label_config_applied_def)
  with assms(2) obtain lvs
    where "s' = s\<lparr>buildRunEstablishDuration := Some (histogram_Observe hv lvs (Seconds t))\<rparr>"
    by (auto simp: BuildRunEstablishObserve_def split: sum.splits)
  with assms(1) hv show ?thesis
    by (auto simp: label_config_applied_def histogram_Observe_def)
qed

lemma BuildRunCompletionObserve_applied:
  assumes "label_config_applied config s"
  shows "BuildRunCompletionObserve a b c d t s
           = (if \<not> list_all ValidString (buildRunLabelValues config a b c d)
              then Inl InvalidUTF8
              else if \<not> has_child (buildRunCompletionDuration s) (buildRunLabelValues config a b c d)
                      \<and> \<not> increasing (BuildRunCompletionDurationBuckets config)
              then Inl BucketsNotIncreasing
              else Inr (s\<lparr>buildRunCompletionDuration :=
                          map_option
                            (\<lambda>hv. histogram_Observe hv (buildRunLabelValues config a b c d)
                                    (Seconds t))
                            (buildRunCompletionDuration s)\<rparr>))"
proof -
  from assms obtain hv where hv: "buildRunCompletionDuration s = Some hv"
      "hv_labelNames hv = enabled_keys config buildRunLabelKeys"
      "hv_Buckets hv = BuildRunCompletionDurationBuckets config"
    by (auto simp: label_config_applied_def)
  then show ?thesis
    by (simp add: BuildRunCompletionObserve_def histogram_With_def has_child_def
        With_buildRunLabels [OF assms])
qed

lemma BuildRunCompletionObserve_preserves:
  assumes "label_config_applied config s" and "BuildRunCompletionObserve a b c d t s = Inr s'"
  shows "label_config_applied config s'"
proof -
  from assms(1) obtain hv where hv: "buildRunCompletionDuration s = Some hv"
    by (auto simp: label_config_applied_def)
  with assms(2) obtain lvs
    where "s' = s\<lparr>buildRunCompletionDuration := Some (histogram_Observe hv lvs (Seconds t))\<rparr>"
    by (auto simp: BuildRunCompletionObserve_def split: sum.splits)
  with assms(1) hv show ?thesis
    by (auto simp: label_config_applied_def histogram_Observe_def)
qed

lemma BuildRunRampUpDurationObserve_applied:
  assumes "label_config_applied config s"
  shows "BuildRunRampUpDurationObserve a b c d t s
           = (if \<not> list_all ValidString (buildRunLabelValues config a b c d)
              then Inl InvalidUTF8
              else if \<not> has_child (buildRunRampUpDuration s) (buildRunLabelValues config a b c d)
                      \<and> \<not> increasing (BuildRunRampUpDurationBuckets config)
              then Inl BucketsNotIncreasing
              else Inr (s\<lparr>buildRunRampUpDuration :=
                          map_option
                            (\<lambda>hv. histogram_Observe hv (buildRunLabelValues config a b c d)
                                    (Seconds t))
                            (buildRunRampUpDuration s)\<rparr>))"
proof -
  from assms obtain hv where hv: "buildRunRampUpDuration s = Some hv"
      "hv_labelNames hv = enabled_keys config buildRunLabelKeys"
      "hv_Buckets hv = BuildRunRampUpDurationBuckets config"
    by (auto simp: label_config_applied_def)
  then show ?thesis
    by (simp add: BuildRunRampUpDurationObserve_def histogram_With_def has_child_def
        With_buildRunLabels [OF assms])
qed

lemma BuildRunRampUpDurationObserve_preserves:
  assumes "label_config_applied config s" and "BuildRunRampUpDurationObserve a b c d t s = Inr s'"
  shows "label_config_applied config s'"
proof -
  from assms(1) obtain hv where hv: "buildRunRampUpDuration s = Some hv"
    by (auto simp: label_config_applied_def)
  with assms(2) obtain lvs
    where "s' = s\<lparr>buildRunRampUpDuration := Some (histogram_Observe hv lvs (Seconds t))\<rparr>"
    by (auto simp: BuildRunRampUpDurationObserve_def split: sum.splits)
  with assms(1) hv show ?thesis
    by (auto simp: label_config_applied_def histogram_Observe_def)
qed

lemma TaskRunRampUpDurationObserve_applied:
  assumes "label_config_applied config s"
  shows "TaskRunRampUpDurationObserve a b c d t s
           = (if \<not> list_all ValidString (buildRunLabelValues config a b c d)
              then Inl InvalidUTF8
              else if \<not> has_child (taskRunRampUpDuration s) (buildRunLabelValues config a b c d)
                      \<and> \<not> increasing (BuildRunRampUpDurationBuckets config)
              then Inl BucketsNotIncreasing
              else Inr (s\<lparr>taskRunRampUpDuration :=
                          map_option
                            (\<lambda>hv. histogram_Observe hv (buildRunLabelValues config a b c d)
                                    (Seconds t))
                            (taskRunRampUpDuration s)\<rparr>))"
proof -
  from assms obtain hv where hv: "taskRunRampUpDuration s = Some hv"
      "hv_labelNames hv = enabled_keys config buildRunLabelKeys"
      "hv_Buckets hv = BuildRunRampUpDurationBuckets config"
    by (auto simp: label_config_applied_def)
  then show ?thesis
    by (simp add: TaskRunRampUpDurationObserve_def histogram_With_def has_child_def
        With_buildRunLabels [OF assms])
qed

lemma TaskRunRampUpDurationObserve_preserves:
  assumes "label_config_applied config s" and "TaskRunRampUpDurationObserve a b c d t s = Inr s'"
  shows "label_config_applied config s'"
proof -
  from assms(1) obtain hv where hv: "taskRunRampUpDuration s = Some hv"
    by (auto simp: label_config_applied_def)
  with assms(2) obtain lvs
    where "s' = s\<lparr>taskRunRampUpDuration := Some (histogram_Observe hv lvs (Seconds t))\<rparr>"
    by (auto simp: TaskRunRampUpDurationObserve_def split: sum.splits)
  with assms(1) hv show ?thesis
    by (auto simp: label_config_applied_def histogram_Observe_def)
qed

lemma TaskRunPodRampUpDurationObserve_applied:
  assumes "label_config_applied config s"
  shows "TaskRunPodRampUpDurationObserve a b c d t s
           = (if \<not> list_all ValidString (buildRunLabelValues config a b c d)
              then Inl InvalidUTF8
              else if \<not> has_child (taskRunPodRampUpDuration s) (buildRunLabelValues config a b c d)
                      \<and> \<not> increasing (BuildRunRampUpDurationBuckets config)
              then Inl BucketsNotIncreasing
              else Inr (s\<lparr>taskRunPodRampUpDuration :=
                          map_option
                            (\<lambda>hv. histogram_Observe hv (buildRunLabelValues config a b c d)
                                    (Seconds t))
                            (taskRunPodRampUpDuration s)\<rparr>))"
proof -
  from assms obtain hv where hv: "taskRunPodRampUpDuration s = Some hv"
      "hv_labelNames hv = enabled_keys config buildRunLabelKeys"
      "hv_Buckets hv = BuildRunRampUpDurationBuckets config"
    by (auto simp: label_config_applied_def)
  then show ?thesis
    by (simp add: TaskRunPodRampUpDurationObserve_def histogram_With_def has_child_def
        With_buildRunLabels [OF assms])
qed

lemma TaskRunPodRampUpDurationObserve_preserves:
  assumes "label_config_applied config s" and "TaskRunPodRampUpDurationObserve a b c d t s = Inr s'"
  shows "label_config_applied config s'"
proof -
  from assms(1) obtain hv where hv: "taskRunPodRampUpDuration s = Some hv"
    by (auto simp: label_config_applied_def)
  with assms(2) obtain lvs
    where "s' = s\<lparr>taskRunPodRampUpDuration := Some (histogram_Observe hv lvs (Seconds t))\<rparr>"
    by (auto simp: TaskRunPodRampUpDurationObserve_def split: sum.splits)
  with assms(1) hv show ?thesis
    by (auto simp: label_config_applied_def histogram_Observe_def)
qed

lemma BuildCountInc_preserves:
  assumes "label_config_applied config s" and "BuildCountInc a b c s = Inr s'"
  shows "label_config_applied config s'"
proof -
  from assms(1) obtain cv where cv: "buildCount s = Some cv"
    by (auto simp: label_config_applied_def)
  with assms(2) obtain lvs where "s' = s\<lparr>buildCount := Some (counter_Inc cv lvs)\<rparr>"
    by (auto simp: BuildCountInc_def split: sum.splits)
  with assms(1) cv show ?thesis
    by (auto simp: label_config_applied_def counter_Inc_def)
qed

lemma BuildRunCountInc_preserves:
  assumes "label_config_applied config s" and "BuildRunCountInc a b c d s = Inr s'"
  shows "label_config_applied config s'"
proof -
  from assms(1) obtain cv where cv: "buildRunCount s = Some cv"
    by (auto simp: label_config_applied_def)
  with assms(2) obtain lvs where "s' = s\<lparr>buildRunCount := Some (counter_Inc cv lvs)\<rparr>"
    by (auto simp: BuildRunCountInc_def split: sum.splits)
  with assms(1) cv show ?thesis
    by (auto simp: label_config_applied_def counter_Inc_def)
qed

lemma perform_preserves:
  assumes "label_config_applied config s" and "perform x s = Inr s'"
  shows "label_config_applied config s'"
proof (cases x)
  case (CallInitPrometheus c2)
  from assms(1) have "initialized s"
    by (simp add: label_config_applied_def)
  with assms(2) CallInitPrometheus have "s' = s"
    by (simp add: InitPrometheus_def)
  with assms(1) show ?thesis by simp
next
  case (CallBuildCountInc a b c)
  with assms(2) have "BuildCountInc a b c s = Inr s'" by simp
  with assms(1) show ?thesis by (rule BuildCountInc_preserves)
next
  case (CallBuildRunCountInc a b c d)
  with assms(2) have "BuildRunCountInc a b c d s = Inr s'" by simp
  with assms(1) show ?thesis by (rule BuildRunCountInc_preserves)
next
  case (CallBuildRunEstablishObserve a b c d t)
  with assms(2) have "BuildRunEstablishObserve a b c d t s = Inr s'" by simp
  with assms(1) show ?thesis by (rule BuildRunEstablishObserve_preserves)
next
  case (CallBuildRunCompletionObserve a b c d t)
  with assms(2) have "BuildRunCompletionObserve a b c d t s = Inr s'" by simp
  with assms(1) show ?thesis by (rule BuildRunCompletionObserve_preserves)
next
  case (CallBuildRunRampUpDurationObserve a b c d t)
  with assms(2) have "BuildRunRampUpDurationObserve a b c d t s = Inr s'" by simp
  with assms(1) show ?thesis by (rule BuildRunRampUpDurationObserve_preserves)
next
  case (CallTaskRunRampUpDurationObserve a b c d t)
  with assms(2) have "TaskRunRampUpDurationObserve a b c d t s = Inr s'" by simp
  with assms(1) show ?thesis by (rule TaskRunRampUpDurationObserve_preserves)
next
  case (CallTaskRunPodRampUpDurationObserve a b c d t)
  with assms(2) have "TaskRunPodRampUpDurationObserve a b c d t s = Inr s'" by simp
  with assms(1) show ?thesis by (rule TaskRunPodRampUpDurationObserve_preserves)
qed

lemma perform_all_preserves:
  "label_config_applied config s \<Longrightarrow> perform_all xs s = Inr s' \<Longrightarrow>
     label_config_applied config s'"
proof (induction xs arbitrary: s)
  case Nil
  then show ?case by simp
next
  case (Cons x xs)
  from Cons.prems(2) obtain s1 where s1: "perform x s = Inr s1" "perform_all xs s1 = Inr s'"
    by (auto split: sum.splits)
  from perform_preserves [OF Cons.prems(1) s1(1)] have "label_config_applied config s1" .
  from Cons.IH [OF this s1(2)] show ?case .
qed

lemma samples_Observe:
  "samples (Some (histogram_Observe hv lvs v)) lvs = samples (Some hv) lvs @ [v]"
  by (simp add: samples_def histogram_Observe_def split: option.splits)

lemma MustRegister_fresh:
  "distinct ns \<Longrightarrow> set ns \<inter> set (registry s) = {} \<Longrightarrow>
     MustRegister ns s = Inr (s\<lparr>registry := registry s @ ns\<rparr>)"
  by (induction ns arbitrary: s) auto

lemma instrument_names_distinct: "distinct instrument_names"
  by (simp add: instrument_names_def buildCount_Name_def buildRunCount_Name_def
      buildRunEstablishDuration_Name_def buildRunCompletionDuration_Name_def
      buildRunRampUpDuration_Name_def taskRunRampUpDuration_Name_def
      taskRunPodRampUpDuration_Name_def)

lemma InitPrometheus_initial_fresh:
  "set instrument_names \<inter> set reg = {} \<Longrightarrow>
     InitPrometheus config (initial_state reg)
       = Inr ((configured config reg)\<lparr>registry := reg @ instrument_names\<rparr>)"
  by (simp add: InitPrometheus_initial MustRegister_fresh instrument_names_distinct
      configured_def)

lemma InitPrometheus_registers:
  assumes "\<not> initialized s"
  shows "\<exists>ns s6. InitPrometheus config s = MustRegister ns s6 \<and> initialized s6"
  apply (simp only: InitPrometheus_def Let_def assms if_False split_def)
  apply (intro exI conjI)
   apply (rule refl)
  apply simp
  done

lemma InitPrometheus_initialized:
  assumes "InitPrometheus config s = Inr s1"
  shows "initialized s1"
proof (cases "initialized s")
  case True
  with assms show ?thesis by (simp add: InitPrometheus_def)
next
  case False
  from InitPrometheus_registers [OF this, of config] assms
  obtain ns s6 where "MustRegister ns s6 = Inr s1" and "initialized s6"
    by auto
  from MustRegister_Inr [OF this(1)] this(2) show ?thesis by simp
qed

lemma BuildRunEstablishObserve_samples:
  assumes "label_config_applied config s"
  shows "samples_after (BuildRunEstablishObserve a b c d t s) buildRunEstablishDuration (buildRunLabelValues config a b c d)
       = (if list_all ValidString (buildRunLabelValues config a b c d)
             \<and> (has_child (buildRunEstablishDuration s) (buildRunLabelValues config a b c d)
                  \<or> increasing (BuildRunEstablishDurationBuckets config))
          then Some (samples (buildRunEstablishDuration s) (buildRunLabelValues config a b c d) @ [Seconds t])
          else None)"
proof -
  from assms obtain hv where "buildRunEstablishDuration s = Some hv"
    by (auto simp: label_config_applied_def)
  then show ?thesis
    using samples_Observe [of hv "buildRunLabelValues config a b c d" "Seconds t"]
    by (simp add: BuildRunEstablishObserve_applied [OF assms] samples_after_def)
qed

lemma BuildRunCompletionObserve_samples:
  assumes "label_config_applied config s"
  shows "samples_after (BuildRunCompletionObserve a b c d t s) buildRunCompletionDuration (buildRunLabelValues config a b c d)
       = (if list_all ValidString (buildRunLabelValues config a b c d)
             \<and> (has_child (buildRunCompletionDuration s) (buildRunLabelValues config a b c d)
                  \<or> increasing (BuildRunCompletionDurationBuckets config))
          then Some (samples (buildRunCompletionDuration s) (buildRunLabelValues config a b c d) @ [Seconds t])
          else None)"
proof -
  from assms obtain hv where "buildRunCompletionDuration s = Some hv"
    by (auto simp: label_config_applied_def)
  then show ?thesis
    using samples_Observe [of hv "buildRunLabelValues config a b c d" "Seconds t"]
    by (simp add: BuildRunCompletionObserve_applied [OF assms] samples_after_def)
qed

lemma BuildRunRampUpDurationObserve_samples:
  assumes "label_config_applied config s"
  shows "samples_after (BuildRunRampUpDurationObserve a b c d t s) buildRunRampUpDuration (buildRunLabelValues config a b c d)
       = (if list_all ValidString (buildRunLabelValues config a b c d)
             \<and> (has_child (buildRunRampUpDuration s) (buildRunLabelValues config a b c d)
                  \<or> increasing (BuildRunRampUpDurationBuckets config))
          then Some (samples (buildRunRampUpDuration s) (buildRunLabelValues config a b c d) @ [Seconds t])
          else None)"
proof -
  from assms obtain hv where "buildRunRampUpDuration s = Some hv"
    by (auto simp: label_config_applied_def)
  then show ?thesis
    using samples_Observe [of hv "buildRunLabelValues config a b c d" "Seconds t"]
    by (simp add: BuildRunRampUpDurationObserve_applied [OF assms] samples_after_def)
qed

lemma TaskRunRampUpDurationObserve_samples:
  assumes "label_config_applied config s"
  shows "samples_after (TaskRunRampUpDurationObserve a b c d t s) taskRunRampUpDuration (buildRunLabelValues config a b c d)
       = (if list_all ValidString (buildRunLabelValues config a b c d)
             \<and> (has_child (taskRunRampUpDuration s) (buildRunLabelValues config a b c d)
                  \<or> increasing (BuildRunRampUpDurationBuckets config))
          then Some (samples (taskRunRampUpDuration s) (buildRunLabelValues config a b c d) @ [Seconds t])
          else None)"
proof -
  from assms obtain hv where "taskRunRampUpDuration s = Some hv"
    by (auto simp: label_config_applied_def)
  then show ?thesis
    using samples_Observe [of hv "buildRunLabelValues config a b c d" "Seconds t"]
    by (simp add: TaskRunRampUpDurationObserve_applied [OF assms] samples_after_def)
qed

lemma TaskRunPodRampUpDurationObserve_samples:
  assumes "label_config_applied config s"
  shows "samples_after (TaskRunPodRampUpDurationObserve a b c d t s) taskRunPodRampUpDuration (buildRunLabelValues config a b c d)
       = (if list_all ValidString (buildRunLabelValues config a b c d)
             \<and> (has_child (taskRunPodRampUpDuration s) (buildRunLabelValues config a b c d)
                  \<or> increasing (BuildRunRampUpDurationBuckets config))
          then Some (samples (taskRunPodRampUpDuration s) (buildRunLabelValues config a b c d) @ [Seconds t])
          else None)"
proof -
  from assms obtain hv where "taskRunPodRampUpDuration s = Some hv"
    by (auto simp: label_config_applied_def)
  then show ?thesis
    using samples_Observe [of hv "buildRunLabelValues config a b c d" "Seconds t"]
    by (simp add: TaskRunPodRampUpDurationObserve_applied [OF assms] samples_after_def)
qed

lemma ex_initialized_applied: "label_config_applied ex_config1 ex_initialized"
  by (simp add: ex_initialized_def label_config_applied_registry configured_applied)

lemma ex_config1_increasing:
  "increasing (BuildRunEstablishDurationBuckets ex_config1)"
  "increasing (BuildRunCompletionDurationBuckets ex_config1)"
  "increasing (BuildRunRampUpDurationBuckets ex_config1)"
  by (simp_all add: ex_config1_def)

lemma ex_values_valid:
  "ValidString ''buildah''" "ValidString ''team-a''"
  "list_all ValidString [''buildah'', ''team-a'']"
  by (simp_all add: ValidString_def)

lemma ex_initialized_values:
  "buildRunLabelValues ex_config1 ''buildah'' ''team-a'' ''sample'' ''br-1''
     = [''buildah'', ''team-a'']"
  by (simp add: buildRunLabelValues_def enabled_labels_def ex_config1_def
      buildRunLabelKeys_def BuildStrategyLabel_def NamespaceLabel_def BuildLabel_def
      BuildRunLabel_def)

lemma ex_initialized_empty:
  "samples (buildRunEstablishDuration ex_initialized) lvs = []"
  "samples (buildRunCompletionDuration ex_initialized) lvs = []"
  "samples (buildRunRampUpDuration ex_initialized) lvs = []"
  "samples (taskRunRampUpDuration ex_initialized) lvs = []"
  "samples (taskRunPodRampUpDuration ex_initialized) lvs = []"
  by (simp_all add: ex_initialized_def configured_def samples_def NewHistogramVec_def)

lemmas ex_cluster_defs =
  ex_cluster_def ex_lonely_cluster_def ex_foreign_cluster_def ex_cyclic_cluster_def
  ex_shadow_cluster_def ex_elsewhere_replicaset_def ex_shadow_replicaset_def
  ex_pod_def ex_lonely_pod_def ex_replicaset_def ex_deployment_def
  ex_replicaset_ref_def ex_deployment_ref_def ex_env_def ex_ns_def ex_podName_def
  mem_client_def pod_key_def owner_key_def Getenv_def PodNameEnvVar_def GetControllerOf_def

section \<open>Claims about owner resolution\<close>

text \<open>
  Claim C1. Let the Pod named by the environment have the controller reference \<open>r1\<close>,
  let the object fetched for \<open>r1\<close> have the controller reference \<open>r2\<close>, and let the
  object fetched for \<open>r2\<close> have no controller. Then \<^verbatim>\<open>getPodOwnerRef\<close> returns \<open>r2\<close>, the
  reference to the top-level object, and the calls it makes on the client are the fetch of
  the Pod and exactly two more fetches, one for \<open>r1\<close> and one for \<open>r2\<close>.
\<close>

theorem three_level_chain_resolves_to_top:
  assumes "Getenv env PodNameEnvVar = podName" and "podName \<noteq> []"
    and "Get c (pod_key ns podName) (store st) = Inr pod"
    and "GetControllerOf pod = Some r1"
    and "Get c (owner_key ns r1) (store st) = Inr o1"
    and "GetControllerOf o1 = Some r2"
    and "Get c (owner_key ns r2) (store st) = Inr o2"
    and "GetControllerOf o2 = None"
  shows "getPodOwnerRef env c ns st =
     Some (Inr r2,
           st\<lparr>calls := calls st @ [GetCall (pod_key ns podName),
                                   GetCall (owner_key ns r1), GetCall (owner_key ns r2)]\<rparr>)"
  using assms(4-8)
  by (simp add: getPodOwnerRef_fetched [OF assms(1-3)] findFinalOwnerRef_Some)

theorem three_level_chain_witness:
  "getPodOwnerRef ex_env mem_client ex_ns ex_cluster =
     Some (Inr ex_deployment_ref,
           ex_cluster\<lparr>calls := [GetCall (pod_key ex_ns ex_podName),
                                GetCall (owner_key ex_ns ex_replicaset_ref),
                                GetCall (owner_key ex_ns ex_deployment_ref)]\<rparr>)"
  using three_level_chain_resolves_to_top [of ex_env ex_podName mem_client ex_ns ex_cluster
      ex_pod ex_replicaset_ref ex_replicaset ex_deployment_ref ex_deployment]
  by (simp add: ex_cluster_defs)

text \<open>
  Claim C2. If the Pod named by the environment has no controller reference, then
  \<^verbatim>\<open>getPodOwnerRef\<close> returns a controller reference to the Pod itself, with API version
  \<^verbatim>\<open>v1\<close>, kind \<^verbatim>\<open>Pod\<close> and the name of the Pod, and the fetch of the Pod is the only
  call it makes on the client.
\<close>

theorem pod_without_controller_owns_itself:
  assumes "Getenv env PodNameEnvVar = podName" and "podName \<noteq> []"
    and "Get c (pod_key ns podName) (store st) = Inr pod"
    and "GetControllerOf pod = None"
  shows "getPodOwnerRef env c ns st =
     Some (Inr \<lparr>ref_APIVersion = ''v1'', ref_Kind = ''Pod'', ref_Name = obj_Name pod,
                ref_UID = obj_UID pod, ref_Controller = Some True,
                ref_BlockOwnerDeletion = Some True\<rparr>,
           st\<lparr>calls := calls st @ [GetCall (pod_key ns podName)]\<rparr>)"
  using assms(4)
  by (simp add: getPodOwnerRef_fetched [OF assms(1-3)] findFinalOwnerRef_None
      NewControllerRef_def GroupVersionKind_def)

theorem pod_without_controller_witness:
  "getPodOwnerRef ex_env mem_client ex_ns ex_lonely_cluster =
     Some (Inr \<lparr>ref_APIVersion = ''v1'', ref_Kind = ''Pod'', ref_Name = ex_podName,
                ref_UID = ''uid-p'', ref_Controller = Some True,
                ref_BlockOwnerDeletion = Some True\<rparr>,
           ex_lonely_cluster\<lparr>calls := [GetCall (pod_key ex_ns ex_podName)]\<rparr>)"
  using pod_without_controller_owns_itself [of ex_env ex_podName mem_client ex_ns
      ex_lonely_cluster ex_lonely_pod]
  by (simp add: ex_cluster_defs)

text \<open>
  Claim C7. If the references that can be reached from the starting reference in the
  graph of controller owners are finitely many and none of them lies on a cycle, then
  \<^verbatim>\<open>findFinalOwnerRef\<close> returns. If one of them lies on a cycle, it does not return.
  Without a starting reference it returns at once.
\<close>

theorem findFinalOwnerRef_terminates_iff_acyclic:
  "(finite ((owner_edges c (store st) ns)\<^sup>* `` {r0}) \<and>
    (\<forall>r\<in>(owner_edges c (store st) ns)\<^sup>* `` {r0}. (r, r) \<notin> (owner_edges c (store st) ns)\<^sup>+)
      \<longrightarrow> (\<exists>y. findFinalOwnerRef c ns (Some r0) st = Some y))
   \<and> ((\<exists>r\<in>(owner_edges c (store st) ns)\<^sup>* `` {r0}. (r, r) \<in> (owner_edges c (store st) ns)\<^sup>+)
      \<longrightarrow> findFinalOwnerRef c ns (Some r0) st = None)
   \<and> findFinalOwnerRef c ns None st = Some (Inr None, st)"
proof (intro conjI impI)
  assume "finite ((owner_edges c (store st) ns)\<^sup>* `` {r0}) \<and>
    (\<forall>r\<in>(owner_edges c (store st) ns)\<^sup>* `` {r0}. (r, r) \<notin> (owner_edges c (store st) ns)\<^sup>+)"
  then have "chain_ends c (store st) ns r0"
    by (intro finite_acyclic_chain_ends) simp_all
  then show "\<exists>y. findFinalOwnerRef c ns (Some r0) st = Some y"
    by (rule chain_ends_returns) simp
next
  assume cyc: "\<exists>r\<in>(owner_edges c (store st) ns)\<^sup>* `` {r0}.
      (r, r) \<in> (owner_edges c (store st) ns)\<^sup>+"
  show "findFinalOwnerRef c ns (Some r0) st = None"
  proof (rule ccontr)
    assume "findFinalOwnerRef c ns (Some r0) st \<noteq> None"
    then obtain y where "findFinalOwnerRef c ns (Some r0) st = Some y" by blast
    from findFinalOwnerRef_chain_ends [OF this] have "chain_ends c (store st) ns r0" by simp
    from chain_ends_finite_acyclic [OF this] cyc show False by blast
  qed
next
  show "findFinalOwnerRef c ns None st = Some (Inr None, st)"
    by (rule findFinalOwnerRef_None)
qed

theorem findFinalOwnerRef_terminates_witness:
  "(\<exists>y. findFinalOwnerRef mem_client ex_ns (Some ex_replicaset_ref) ex_cluster = Some y)
   \<and> findFinalOwnerRef mem_client ex_ns (Some ex_replicaset_ref) ex_cyclic_cluster = None"
proof
  have "next_owner mem_client (store ex_cluster) ex_ns ex_deployment_ref = None"
    by (simp add: next_owner_def ex_cluster_defs)
  then have "chain_ends mem_client (store ex_cluster) ex_ns ex_deployment_ref"
    by (rule chain_ends.last)
  moreover have "next_owner mem_client (store ex_cluster) ex_ns ex_replicaset_ref
      = Some ex_deployment_ref"
    by (simp add: next_owner_def ex_cluster_defs)
  ultimately have "chain_ends mem_client (store ex_cluster) ex_ns ex_replicaset_ref"
    by (rule chain_ends.hop [rotated])
  from chain_ends_finite_acyclic [OF this]
    findFinalOwnerRef_terminates_iff_acyclic [of mem_client ex_cluster ex_ns ex_replicaset_ref]
  show "\<exists>y. findFinalOwnerRef mem_client ex_ns (Some ex_replicaset_ref) ex_cluster = Some y"
    by blast
next
  have "next_owner mem_client (store ex_cyclic_cluster) ex_ns ex_replicaset_ref
      = Some ex_replicaset_ref"
    by (simp add: next_owner_def ex_cluster_defs)
  then have "(ex_replicaset_ref, ex_replicaset_ref)
      \<in> (owner_edges mem_client (store ex_cyclic_cluster) ex_ns)\<^sup>+"
    by (simp add: owner_edges_iff r_into_trancl)
  moreover have "ex_replicaset_ref
      \<in> (owner_edges mem_client (store ex_cyclic_cluster) ex_ns)\<^sup>* `` {ex_replicaset_ref}"
    by simp
  ultimately show
    "findFinalOwnerRef mem_client ex_ns (Some ex_replicaset_ref) ex_cyclic_cluster = None"
    using findFinalOwnerRef_terminates_iff_acyclic
      [of mem_client ex_cyclic_cluster ex_ns ex_replicaset_ref]
    by blast
qed

text \<open>
  Claim C9. \<^verbatim>\<open>CreateMetricsService\<close> with an empty list of ports returns an error and
  leaves the cluster and the log of calls as they were, whatever the client constructor
  would do; \<^verbatim>\<open>getPodOwnerRef\<close> with the variable \<^verbatim>\<open>POD_NAME\<close> unset returns an error
  and makes no call either. Both return at once; nothing is tried again.
\<close>

theorem configuration_errors_are_immediate:
  "CreateMetricsService New env cfg buildCfg [] st =
     Some (Inl (Errorf ''failed to create metrics Serice; service ports were empty''), st)
   \<and> (env PodNameEnvVar = None \<longrightarrow>
        getPodOwnerRef env c ns st =
          Some (Inl (Errorf ''required env POD_NAME not set, please configure downward API''),
                st))"
  by (simp add: CreateMetricsService_def getPodOwnerRef_def Getenv_def PodNameEnvVar_def)

theorem configuration_errors_witness:
  "CreateMetricsService (\<lambda>cfg :: unit. Inr mem_client) Map.empty () ex_config1 [] ex_cluster =
     Some (Inl (Errorf ''failed to create metrics Serice; service ports were empty''),
           ex_cluster)
   \<and> getPodOwnerRef Map.empty mem_client ex_ns ex_cluster =
     Some (Inl (Errorf ''required env POD_NAME not set, please configure downward API''),
           ex_cluster)"
  using configuration_errors_are_immediate [of "\<lambda>cfg :: unit. Inr mem_client" Map.empty "()"
      ex_config1 ex_cluster mem_client ex_ns]
  by simp




section \<open>Claims about the service publisher\<close>

text \<open>
  Claim C3. Let the create of the service fail. If the error is already-exists, then
  \<^verbatim>\<open>createOrUpdateService\<close> fetches the existing service once; if this fetch fails, its
  error is the result and nothing is updated; otherwise it updates once, with the
  descriptor that carries the resource version of the existing service and, if the type
  of the existing service is ClusterIP, its cluster IP, and the result is the answer to
  this update, an error being returned as it is. If the error of the create is another
  one, it is the result and no further call is made.
\<close>

theorem createOrUpdateService_on_create_failure:
  assumes "Create c s (store st) = (Inl err, w1)"
  shows "(IsAlreadyExists err \<longrightarrow>
      createOrUpdateService c buildCfg s st =
        (case GetService c (service_key s) w1 of
           Inl e \<Rightarrow>
             (Inl e, \<lparr>store = w1,
                      calls = calls st @ [CreateCall s, GetCall (service_key s)]\<rparr>)
         | Inr existing \<Rightarrow>
             (let s' = s\<lparr>svc_ResourceVersion := svc_ResourceVersion existing,
                         svc_ClusterIP :=
                           (if svc_Type existing = ServiceTypeClusterIP
                            then svc_ClusterIP existing else svc_ClusterIP s)\<rparr>
              in case Update c s' w1 of
                   (r, w2) \<Rightarrow>
                     (r, \<lparr>store = w2,
                          calls = calls st @ [CreateCall s, GetCall (service_key s),
                                              UpdateCall s']\<rparr>))))
    \<and> (\<not> IsAlreadyExists err \<longrightarrow>
      createOrUpdateService c buildCfg s st
        = (Inl err, \<lparr>store = w1, calls = calls st @ [CreateCall s]\<rparr>))"
  using assms
  by (auto simp: createOrUpdateService_def client_Create_def client_GetService_def
      client_Update_def Let_def split: sum.splits prod.splits)

theorem createOrUpdateService_witness:
  "createOrUpdateService mem_client ex_config1 ex_service ex_published_cluster =
     (Inr (ex_service\<lparr>svc_ResourceVersion := ''411'', svc_ClusterIP := ''10.0.0.7'',
                      svc_Type := ServiceTypeClusterIP\<rparr>),
      \<lparr>store = \<lparr>mem_objects = [],
                mem_services =
                  [(service_key ex_service,
                    ex_service\<lparr>svc_ResourceVersion := ''411'', svc_ClusterIP := ''10.0.0.7'',
                               svc_Type := ServiceTypeClusterIP\<rparr>)]\<rparr>,
       calls = [CreateCall ex_service, GetCall (service_key ex_service),
                UpdateCall (ex_service\<lparr>svc_ResourceVersion := ''41'',
                                       svc_ClusterIP := ''10.0.0.7''\<rparr>)]\<rparr>)
   \<and> createOrUpdateService ex_forbidding_client ex_config1 ex_service ex_published_cluster =
     (Inl (StatusError Forbidden),
      \<lparr>store = store ex_published_cluster, calls = [CreateCall ex_service]\<rparr>)"
proof
  have "Create mem_client ex_service (store ex_published_cluster)
      = (Inl (StatusError AlreadyExists), store ex_published_cluster)"
    by (simp add: mem_client_def ex_published_cluster_def)
  from createOrUpdateService_on_create_failure [OF this]
  show "createOrUpdateService mem_client ex_config1 ex_service ex_published_cluster =
     (Inr (ex_service\<lparr>svc_ResourceVersion := ''411'', svc_ClusterIP := ''10.0.0.7'',
                      svc_Type := ServiceTypeClusterIP\<rparr>),
      \<lparr>store = \<lparr>mem_objects = [],
                mem_services =
                  [(service_key ex_service,
                    ex_service\<lparr>svc_ResourceVersion := ''411'', svc_ClusterIP := ''10.0.0.7'',
                               svc_Type := ServiceTypeClusterIP\<rparr>)]\<rparr>,
       calls = [CreateCall ex_service, GetCall (service_key ex_service),
                UpdateCall (ex_service\<lparr>svc_ResourceVersion := ''41'',
                                       svc_ClusterIP := ''10.0.0.7''\<rparr>)]\<rparr>)"
    by (simp add: mem_client_def ex_published_cluster_def ex_existing_service_def
        mem_stored_def service_key_def ServiceTypeClusterIP_def ex_service_def)
next
  have "Create ex_forbidding_client ex_service (store ex_published_cluster)
      = (Inl (StatusError Forbidden), store ex_published_cluster)"
    by (simp add: ex_forbidding_client_def)
  from createOrUpdateService_on_create_failure [OF this]
  show "createOrUpdateService ex_forbidding_client ex_config1 ex_service ex_published_cluster =
     (Inl (StatusError Forbidden),
      \<lparr>store = store ex_published_cluster, calls = [CreateCall ex_service]\<rparr>)"
    by (simp add: ex_published_cluster_def)
qed

section \<open>Claims about the metrics package\<close>

text \<open>
  Claim C4. After a call of \<^verbatim>\<open>InitPrometheus\<close> that returns, a second call with any
  configuration returns too and leaves the whole state of the package, instruments,
  flags and registry, as the first call left it.
\<close>

theorem InitPrometheus_twice:
  "InitPrometheus c1 s = Inr s1 \<Longrightarrow> InitPrometheus c2 s1 = Inr s1"
  by (drule InitPrometheus_initialized) (simp add: InitPrometheus_def)

theorem InitPrometheus_twice_witness:
  "InitPrometheus ex_config1 (initial_state [])
     = Inr ex_initialized
   \<and> InitPrometheus ex_config2 ex_initialized
     = Inr ex_initialized"
proof -
  have first: "InitPrometheus ex_config1 (initial_state [])
     = Inr ex_initialized"
    using InitPrometheus_initial_fresh [of "[]" ex_config1] by (simp add: ex_initialized_def)
  from InitPrometheus_twice [OF first, of ex_config2] first show ?thesis by simp
qed

text \<open>
  Claim C5. Let \<^verbatim>\<open>InitPrometheus\<close> return for a configuration at the start of the process,
  and let any sequence of calls into the package have returned since. Then the build
  counter has as label names the enabled ones of buildstrategy, namespace and build, and
  the six build-run instruments have the enabled ones of these and buildrun. The label
  map that a record or observe call builds has exactly these keys, each with the value
  passed by the caller. Each of the two record and five observe operations, unless the
  library panics on a value that is not valid UTF-8 or on the bucket bounds, returns
  the state in which its instrument has counted or sampled under the child of exactly
  these values: the labels recorded, the label names paired with the values of the
  child, are the enabled labels with the values of the caller, and a label that is not
  enabled has no entry.
\<close>

theorem enabled_labels_exposed:
  assumes "InitPrometheus config (initial_state reg) = Inr s"
    and "perform_all xs s = Inr s'"
  shows "map_option cv_labelNames (buildCount s') = Some (enabled_keys config buildLabelKeys)
    \<and> map_option cv_labelNames (buildRunCount s') = Some (enabled_keys config buildRunLabelKeys)
    \<and> map (map_option hv_labelNames)
         [buildRunEstablishDuration s', buildRunCompletionDuration s',
          buildRunRampUpDuration s', taskRunRampUpDuration s', taskRunPodRampUpDuration s']
       = replicate 5 (Some (enabled_keys config buildRunLabelKeys))
    \<and> createBuildLabels s' a b c = enabled_labels config buildLabelKeys [a, b, c]
    \<and> createBuildRunLabels s' a b c d = enabled_labels config buildRunLabelKeys [a, b, c, d]
    \<and> zip (enabled_keys config buildLabelKeys) (buildLabelValues config a b c)
       = enabled_labels config buildLabelKeys [a, b, c]
    \<and> zip (enabled_keys config buildRunLabelKeys) (buildRunLabelValues config a b c d)
       = enabled_labels config buildRunLabelKeys [a, b, c, d]
    \<and> BuildCountInc a b c s'
       = (if list_all ValidString (buildLabelValues config a b c)
          then Inr (s'\<lparr>buildCount :=
                      map_option (\<lambda>cv. counter_Inc cv (buildLabelValues config a b c))
                        (buildCount s')\<rparr>)
          else Inl InvalidUTF8)
    \<and> BuildRunCountInc a b c d s'
       = (if list_all ValidString (buildRunLabelValues config a b c d)
          then Inr (s'\<lparr>buildRunCount :=
                      map_option (\<lambda>cv. counter_Inc cv (buildRunLabelValues config a b c d))
                        (buildRunCount s')\<rparr>)
          else Inl InvalidUTF8)
    \<and> BuildRunEstablishObserve a b c d t s'
       = (if \<not> list_all ValidString (buildRunLabelValues config a b c d)
          then Inl InvalidUTF8
          else if \<not> has_child (buildRunEstablishDuration s') (buildRunLabelValues config a b c d)
                  \<and> \<not> increasing (BuildRunEstablishDurationBuckets config)
          then Inl BucketsNotIncreasing
          else Inr (s'\<lparr>buildRunEstablishDuration :=
                      map_option
                        (\<lambda>hv. histogram_Observe hv (buildRunLabelValues config a b c d)
                                (Seconds t))
                        (buildRunEstablishDuration s')\<rparr>))
    \<and> BuildRunCompletionObserve a b c d t s'
       = (if \<not> list_all ValidString (buildRunLabelValues config a b c d)
          then Inl InvalidUTF8
          else if \<not> has_child (buildRunCompletionDuration s') (buildRunLabelValues config a b c d)
                  \<and> \<not> increasing (BuildRunCompletionDurationBuckets config)
          then Inl BucketsNotIncreasing
          else Inr (s'\<lparr>buildRunCompletionDuration :=
                      map_option
                        (\<lambda>hv. histogram_Observe hv (buildRunLabelValues config a b c d)
                                (Seconds t))
                        (buildRunCompletionDuration s')\<rparr>))
    \<and> BuildRunRampUpDurationObserve a b c d t s'
       = (if \<not> list_all ValidString (buildRunLabelValues config a b c d)
          then Inl InvalidUTF8
          else if \<not> has_child (buildRunRampUpDuration s') (buildRunLabelValues config a b c d)
                  \<and> \<not> increasing (BuildRunRampUpDurationBuckets config)
          then Inl BucketsNotIncreasing
          else Inr (s'\<lparr>buildRunRampUpDuration :=
                      map_option
                        (\<lambda>hv. histogram_Observe hv (buildRunLabelValues config a b c d)
                                (Seconds t))
                        (buildRunRampUpDuration s')\<rparr>))
    \<and> TaskRunRampUpDurationObserve a b c d t s'
       = (if \<not> list_all ValidString (buildRunLabelValues config a b c d)
          then Inl InvalidUTF8
          else if \<not> has_child (taskRunRampUpDuration s') (buildRunLabelValues config a b c d)
                  \<and> \<not> increasing (BuildRunRampUpDurationBuckets config)
          then Inl BucketsNotIncreasing
          else Inr (s'\<lparr>taskRunRampUpDuration :=
                      map_option
                        (\<lambda>hv. histogram_Observe hv (buildRunLabelValues config a b c d)
                                (Seconds t))
                        (taskRunRampUpDuration s')\<rparr>))
    \<and> TaskRunPodRampUpDurationObserve a b c d t s'
       = (if \<not> list_all ValidString (buildRunLabelValues config a b c d)
          then Inl InvalidUTF8
          else if \<not> has_child (taskRunPodRampUpDuration s') (buildRunLabelValues config a b c d)
                  \<and> \<not> increasing (BuildRunRampUpDurationBuckets config)
          then Inl BucketsNotIncreasing
          else Inr (s'\<lparr>taskRunPodRampUpDuration :=
                      map_option
                        (\<lambda>hv. histogram_Observe hv (buildRunLabelValues config a b c d)
                                (Seconds t))
                        (taskRunPodRampUpDuration s')\<rparr>))
    \<and> counted_after (BuildCountInc a b c s') buildCount (buildLabelValues config a b c)
       = (if list_all ValidString (buildLabelValues config a b c)
          then Some (counted (buildCount s') (buildLabelValues config a b c) + 1)
          else None)
    \<and> counted_after (BuildRunCountInc a b c d s') buildRunCount
         (buildRunLabelValues config a b c d)
       = (if list_all ValidString (buildRunLabelValues config a b c d)
          then Some (counted (buildRunCount s') (buildRunLabelValues config a b c d) + 1)
          else None)
    \<and> samples_after (BuildRunEstablishObserve a b c d t s') buildRunEstablishDuration
         (buildRunLabelValues config a b c d)
       = (if list_all ValidString (buildRunLabelValues config a b c d)
             \<and> (has_child (buildRunEstablishDuration s') (buildRunLabelValues config a b c d)
                  \<or> increasing (BuildRunEstablishDurationBuckets config))
          then Some (samples (buildRunEstablishDuration s') (buildRunLabelValues config a b c d) @ [Seconds t])
          else None)
    \<and> samples_after (BuildRunCompletionObserve a b c d t s') buildRunCompletionDuration
         (buildRunLabelValues config a b c d)
       = (if list_all ValidString (buildRunLabelValues config a b c d)
             \<and> (has_child (buildRunCompletionDuration s') (buildRunLabelValues config a b c d)
                  \<or> increasing (BuildRunCompletionDurationBuckets config))
          then Some (samples (buildRunCompletionDuration s') (buildRunLabelValues config a b c d) @ [Seconds t])
          else None)
    \<and> samples_after (BuildRunRampUpDurationObserve a b c d t s') buildRunRampUpDuration
         (buildRunLabelValues config a b c d)
       = (if list_all ValidString (buildRunLabelValues config a b c d)
             \<and> (has_child (buildRunRampUpDuration s') (buildRunLabelValues config a b c d)
                  \<or> increasing (BuildRunRampUpDurationBuckets config))
          then Some (samples (buildRunRampUpDuration s') (buildRunLabelValues config a b c d) @ [Seconds t])
          else None)
    \<and> samples_after (TaskRunRampUpDurationObserve a b c d t s') taskRunRampUpDuration
         (buildRunLabelValues config a b c d)
       = (if list_all ValidString (buildRunLabelValues config a b c d)
             \<and> (has_child (taskRunRampUpDuration s') (buildRunLabelValues config a b c d)
                  \<or> increasing (BuildRunRampUpDurationBuckets config))
          then Some (samples (taskRunRampUpDuration s') (buildRunLabelValues config a b c d) @ [Seconds t])
          else None)
    \<and> samples_after (TaskRunPodRampUpDurationObserve a b c d t s') taskRunPodRampUpDuration
         (buildRunLabelValues config a b c d)
       = (if list_all ValidString (buildRunLabelValues config a b c d)
             \<and> (has_child (taskRunPodRampUpDuration s') (buildRunLabelValues config a b c d)
                  \<or> increasing (BuildRunRampUpDurationBuckets config))
          then Some (samples (taskRunPodRampUpDuration s') (buildRunLabelValues config a b c d) @ [Seconds t])
          else None)
    \<and> set (enabled_keys config buildLabelKeys)
       = set (EnabledLabels config) \<inter> {BuildStrategyLabel, NamespaceLabel, BuildLabel}
    \<and> set (enabled_keys config buildRunLabelKeys)
       = set (EnabledLabels config)
           \<inter> {BuildStrategyLabel, NamespaceLabel, BuildLabel, BuildRunLabel}
    \<and> map fst (enabled_labels config buildLabelKeys [a, b, c])
       = enabled_keys config buildLabelKeys
    \<and> map fst (enabled_labels config buildRunLabelKeys [a, b, c, d])
       = enabled_keys config buildRunLabelKeys"
proof -
  from assms(1) have "label_config_applied config s"
    by (rule InitPrometheus_initial_applied)
  from perform_all_preserves [OF this assms(2)] have inv: "label_config_applied config s'" .
  have names1: "map_option cv_labelNames (buildCount s') = Some (enabled_keys config buildLabelKeys)"
    using inv by (simp add: label_config_applied_def)
  have names2: "map_option cv_labelNames (buildRunCount s') = Some (enabled_keys config buildRunLabelKeys)"
    using inv by (simp add: label_config_applied_def)
  have names3: "map (map_option hv_labelNames)
         [buildRunEstablishDuration s', buildRunCompletionDuration s',
          buildRunRampUpDuration s', taskRunRampUpDuration s', taskRunPodRampUpDuration s']
       = replicate 5 (Some (enabled_keys config buildRunLabelKeys))"
    using inv by (simp add: label_config_applied_def numeral_eq_Suc)
  have labels1: "createBuildLabels s' a b c = enabled_labels config buildLabelKeys [a, b, c]"
    by (rule createBuildLabels_applied [OF inv])
  have labels2: "createBuildRunLabels s' a b c d = enabled_labels config buildRunLabelKeys [a, b, c, d]"
    by (rule createBuildRunLabels_applied [OF inv])
  have zip1: "zip (enabled_keys config buildLabelKeys) (buildLabelValues config a b c)
       = enabled_labels config buildLabelKeys [a, b, c]"
    by (simp add: buildLabelValues_def zip_enabled buildLabelKeys_def)
  have zip2: "zip (enabled_keys config buildRunLabelKeys) (buildRunLabelValues config a b c d)
       = enabled_labels config buildRunLabelKeys [a, b, c, d]"
    by (simp add: buildRunLabelValues_def zip_enabled buildRunLabelKeys_def)
  have op1: "BuildCountInc a b c s'
       = (if list_all ValidString (buildLabelValues config a b c)
          then Inr (s'\<lparr>buildCount :=
                      map_option (\<lambda>cv. counter_Inc cv (buildLabelValues config a b c))
                        (buildCount s')\<rparr>)
          else Inl InvalidUTF8)"
    by (rule BuildCountInc_applied [OF inv])
  have op2: "BuildRunCountInc a b c d s'
       = (if list_all ValidString (buildRunLabelValues config a b c d)
          then Inr (s'\<lparr>buildRunCount :=
                      map_option (\<lambda>cv. counter_Inc cv (buildRunLabelValues config a b c d))
                        (buildRunCount s')\<rparr>)
          else Inl InvalidUTF8)"
    by (rule BuildRunCountInc_applied [OF inv])
  have obs0: "BuildRunEstablishObserve a b c d t s'
       = (if \<not> list_all ValidString (buildRunLabelValues config a b c d)
          then Inl InvalidUTF8
          else if \<not> has_child (buildRunEstablishDuration s') (buildRunLabelValues config a b c d)
                  \<and> \<not> increasing (BuildRunEstablishDurationBuckets config)
          then Inl BucketsNotIncreasing
          else Inr (s'\<lparr>buildRunEstablishDuration :=
                      map_option
                        (\<lambda>hv. histogram_Observe hv (buildRunLabelValues config a b c d)
                                (Seconds t))
                        (buildRunEstablishDuration s')\<rparr>))"
    by (rule BuildRunEstablishObserve_applied [OF inv])
  have obs1: "BuildRunCompletionObserve a b c d t s'
       = (if \<not> list_all ValidString (buildRunLabelValues config a b c d)
          then Inl InvalidUTF8
          else if \<not> has_child (buildRunCompletionDuration s') (buildRunLabelValues config a b c d)
                  \<and> \<not> increasing (BuildRunCompletionDurationBuckets config)
          then Inl BucketsNotIncreasing
          else Inr (s'\<lparr>buildRunCompletionDuration :=
                      map_option
                        (\<lambda>hv. histogram_Observe hv (buildRunLabelValues config a b c d)
                                (Seconds t))
                        (buildRunCompletionDuration s')\<rparr>))"
    by (rule BuildRunCompletionObserve_applied [OF inv])
  have obs2: "BuildRunRampUpDurationObserve a b c d t s'
       = (if \<not> list_all ValidString (buildRunLabelValues config a b c d)
          then Inl InvalidUTF8
          else if \<not> has_child (buildRunRampUpDuration s') (buildRunLabelValues config a b c d)
                  \<and> \<not> increasing (BuildRunRampUpDurationBuckets config)
          then Inl BucketsNotIncreasing
          else Inr (s'\<lparr>buildRunRampUpDuration :=
                      map_option
                        (\<lambda>hv. histogram_Observe hv (buildRunLabelValues config a b c d)
                                (Seconds t))
                        (buildRunRampUpDuration s')\<rparr>))"
    by (rule BuildRunRampUpDurationObserve_applied [OF inv])
  have obs3: "TaskRunRampUpDurationObserve a b c d t s'
       = (if \<not> list_all ValidString (buildRunLabelValues config a b c d)
          then Inl InvalidUTF8
          else if \<not> has_child (taskRunRampUpDuration s') (buildRunLabelValues config a b c d)
                  \<and> \<not> increasing (BuildRunRampUpDurationBuckets config)
          then Inl BucketsNotIncreasing
          else Inr (s'\<lparr>taskRunRampUpDuration :=
                      map_option
                        (\<lambda>hv. histogram_Observe hv (buildRunLabelValues config a b c d)
                                (Seconds t))
                        (taskRunRampUpDuration s')\<rparr>))"
    by (rule TaskRunRampUpDurationObserve_applied [OF inv])
  have obs4: "TaskRunPodRampUpDurationObserve a b c d t s'
       = (if \<not> list_all ValidString (buildRunLabelValues config a b c d)
          then Inl InvalidUTF8
          else if \<not> has_child (taskRunPodRampUpDuration s') (buildRunLabelValues config a b c d)
                  \<and> \<not> increasing (BuildRunRampUpDurationBuckets config)
          then Inl BucketsNotIncreasing
          else Inr (s'\<lparr>taskRunPodRampUpDuration :=
                      map_option
                        (\<lambda>hv. histogram_Observe hv (buildRunLabelValues config a b c d)
                                (Seconds t))
                        (taskRunPodRampUpDuration s')\<rparr>))"
    by (rule TaskRunPodRampUpDurationObserve_applied [OF inv])
  have cnt1: "counted_after (BuildCountInc a b c s') buildCount (buildLabelValues config a b c)
       = (if list_all ValidString (buildLabelValues config a b c)
          then Some (counted (buildCount s') (buildLabelValues config a b c) + 1)
          else None)"
    by (rule BuildCountInc_counted [OF inv])
  have cnt2: "counted_after (BuildRunCountInc a b c d s') buildRunCount
         (buildRunLabelValues config a b c d)
       = (if list_all ValidString (buildRunLabelValues config a b c d)
          then Some (counted (buildRunCount s') (buildRunLabelValues config a b c d) + 1)
          else None)"
    by (rule BuildRunCountInc_counted [OF inv])
  have smp0: "samples_after (BuildRunEstablishObserve a b c d t s') buildRunEstablishDuration
         (buildRunLabelValues config a b c d)
       = (if list_all ValidString (buildRunLabelValues config a b c d)
             \<and> (has_child (buildRunEstablishDuration s') (buildRunLabelValues config a b c d)
                  \<or> increasing (BuildRunEstablishDurationBuckets config))
          then Some (samples (buildRunEstablishDuration s') (buildRunLabelValues config a b c d) @ [Seconds t])
          else None)"
    by (rule BuildRunEstablishObserve_samples [OF inv])
  have smp1: "samples_after (BuildRunCompletionObserve a b c d t s') buildRunCompletionDuration
         (buildRunLabelValues config a b c d)
       = (if list_all ValidString (buildRunLabelValues config a b c d)
             \<and> (has_child (buildRunCompletionDuration s') (buildRunLabelValues config a b c d)
                  \<or> increasing (BuildRunCompletionDurationBuckets config))
          then Some (samples (buildRunCompletionDuration s') (buildRunLabelValues config a b c d) @ [Seconds t])
          else None)"
    by (rule BuildRunCompletionObserve_samples [OF inv])
  have smp2: "samples_after (BuildRunRampUpDurationObserve a b c d t s') buildRunRampUpDuration
         (buildRunLabelValues config a b c d)
       = (if list_all ValidString (buildRunLabelValues config a b c d)
             \<and> (has_child (buildRunRampUpDuration s') (buildRunLabelValues config a b c d)
                  \<or> increasing (BuildRunRampUpDurationBuckets config))
          then Some (samples (buildRunRampUpDuration s') (buildRunLabelValues config a b c d) @ [Seconds t])
          else None)"
    by (rule BuildRunRampUpDurationObserve_samples [OF inv])
  have smp3: "samples_after (TaskRunRampUpDurationObserve a b c d t s') taskRunRampUpDuration
         (buildRunLabelValues config a b c d)
       = (if list_all ValidString (buildRunLabelValues config a b c d)
             \<and> (has_child (taskRunRampUpDuration s') (buildRunLabelValues config a b c d)
                  \<or> increasing (BuildRunRampUpDurationBuckets config))
          then Some (samples (taskRunRampUpDuration s') (buildRunLabelValues config a b c d) @ [Seconds t])
          else None)"
    by (rule TaskRunRampUpDurationObserve_samples [OF inv])
  have smp4: "samples_after (TaskRunPodRampUpDurationObserve a b c d t s') taskRunPodRampUpDuration
         (buildRunLabelValues config a b c d)
       = (if list_all ValidString (buildRunLabelValues config a b c d)
             \<and> (has_child (taskRunPodRampUpDuration s') (buildRunLabelValues config a b c d)
                  \<or> increasing (BuildRunRampUpDurationBuckets config))
          then Some (samples (taskRunPodRampUpDuration s') (buildRunLabelValues config a b c d) @ [Seconds t])
          else None)"
    by (rule TaskRunPodRampUpDurationObserve_samples [OF inv])
  have keys1: "set (enabled_keys config buildLabelKeys)
       = set (EnabledLabels config) \<inter> {BuildStrategyLabel, NamespaceLabel, BuildLabel}"
    by (auto simp: enabled_keys_def buildLabelKeys_def)
  have keys2: "set (enabled_keys config buildRunLabelKeys)
       = set (EnabledLabels config)
           \<inter> {BuildStrategyLabel, NamespaceLabel, BuildLabel, BuildRunLabel}"
    by (auto simp: enabled_keys_def buildRunLabelKeys_def)
  have fst1: "map fst (enabled_labels config buildLabelKeys [a, b, c])
       = enabled_keys config buildLabelKeys"
    by (simp add: enabled_labels_keys buildLabelKeys_def)
  have fst2: "map fst (enabled_labels config buildRunLabelKeys [a, b, c, d])
       = enabled_keys config buildRunLabelKeys"
    by (simp add: enabled_labels_keys buildRunLabelKeys_def)
  show ?thesis
    by (intro conjI) (fact names1 names2 names3 labels1 labels2 zip1 zip2 op1 op2 obs0 obs1 obs2 obs3 obs4 cnt1 cnt2 smp0 smp1 smp2 smp3 smp4 keys1 keys2 fst1 fst2)+
qed

theorem enabled_labels_exposed_witness:
  "InitPrometheus ex_config1 (initial_state []) = Inr ex_initialized
   \<and> perform_all [CallBuildRunCountInc ''buildah'' ''team-a'' ''sample'' ''br-1'']
        ex_initialized = Inr ex_counted
   \<and> map_option cv_labelNames (buildCount ex_counted)
       = Some [BuildStrategyLabel, NamespaceLabel]
   \<and> map_option cv_labelNames (buildRunCount ex_counted)
       = Some [BuildStrategyLabel, NamespaceLabel]
   \<and> createBuildRunLabels ex_counted ''buildah'' ''team-a'' ''sample'' ''br-1''
       = [(BuildStrategyLabel, ''buildah''), (NamespaceLabel, ''team-a'')]
   \<and> zip [BuildStrategyLabel, NamespaceLabel] [''buildah'', ''team-a'']
       = [(BuildStrategyLabel, ''buildah''), (NamespaceLabel, ''team-a'')]
   \<and> counted (buildRunCount ex_counted) [''buildah'', ''team-a''] = 1
   \<and> counted_after
        (BuildRunCountInc ''buildah'' ''team-a'' ''sample'' ''br-1'' ex_counted)
        buildRunCount [''buildah'', ''team-a'']
       = Some 2"
proof -
  have first: "InitPrometheus ex_config1 (initial_state []) = Inr ex_initialized"
    using InitPrometheus_initial_fresh [of "[]" ex_config1] by (simp add: ex_initialized_def)
  have keys: "enabled_keys ex_config1 buildLabelKeys = [BuildStrategyLabel, NamespaceLabel]"
    "enabled_keys ex_config1 buildRunLabelKeys = [BuildStrategyLabel, NamespaceLabel]"
    "enabled_labels ex_config1 buildRunLabelKeys [''buildah'', ''team-a'', ''sample'', ''br-1'']
      = [(BuildStrategyLabel, ''buildah''), (NamespaceLabel, ''team-a'')]"
    by (simp_all add: enabled_keys_def enabled_labels_def ex_config1_def buildLabelKeys_def
        buildRunLabelKeys_def BuildStrategyLabel_def NamespaceLabel_def BuildLabel_def
        BuildRunLabel_def)
  have before: "buildRunCount ex_initialized
      = Some (NewCounterVec buildRunCount_Name buildRunCount_Help
                [BuildStrategyLabel, NamespaceLabel])"
    by (simp add: ex_initialized_def configured_def keys)
  have counted: "perform_all [CallBuildRunCountInc ''buildah'' ''team-a'' ''sample'' ''br-1'']
        ex_initialized = Inr ex_counted"
    by (simp add: BuildRunCountInc_applied [OF ex_initialized_applied] ex_initialized_values
        ex_values_valid before ex_counted_def)
  have one: "counted (buildRunCount ex_counted) [''buildah'', ''team-a''] = 1"
    by (simp add: ex_counted_def counted_def counter_Inc_def NewCounterVec_def)
  note ex = enabled_labels_exposed [OF first counted,
      of "''buildah''" "''team-a''" "''sample''" "''br-1''" 0,
      unfolded keys ex_initialized_values]
  note names1 = ex [THEN conjunct1]
  note names2 = ex [THEN conjunct2, THEN conjunct1]
  note labels = ex [THEN conjunct2, THEN conjunct2, THEN conjunct2, THEN conjunct2, THEN conjunct1]
  note zipped = ex [THEN conjunct2, THEN conjunct2, THEN conjunct2, THEN conjunct2, THEN conjunct2, THEN conjunct2, THEN conjunct1]
  from ex [THEN conjunct2, THEN conjunct2, THEN conjunct2, THEN conjunct2, THEN conjunct2, THEN conjunct2, THEN conjunct2, THEN conjunct2, THEN conjunct2, THEN conjunct2, THEN conjunct2, THEN conjunct2, THEN conjunct2, THEN conjunct2, THEN conjunct2, THEN conjunct1] one ex_values_valid(3)
  have two: "counted_after
        (BuildRunCountInc ''buildah'' ''team-a'' ''sample'' ''br-1'' ex_counted)
        buildRunCount [''buildah'', ''team-a'']
       = Some 2"
    by simp
  show ?thesis
    by (intro conjI) (fact first counted names1 names2 labels zipped one two)+
qed

text \<open>
  Claim C6, as stated: an observe operation called with a negative duration leaves the
  samples of its histogram unchanged. It does not: in the state after initialisation
  with the labels buildstrategy and namespace, where no histogram has a sample, each of
  the five operations called with minus one and a half seconds returns a state in which
  its histogram holds the sample \<open>- 3 / 2\<close>.
\<close>

theorem negative_duration_counterexample:
  "samples (buildRunEstablishDuration ex_initialized) [''buildah'', ''team-a''] = []
   \<and> samples_after (BuildRunEstablishObserve ''buildah'' ''team-a'' ''sample'' ''br-1'' (- 1500000000)
          ex_initialized) buildRunEstablishDuration [''buildah'', ''team-a'']
       = Some [- 3 / 2]
   \<and> samples (buildRunCompletionDuration ex_initialized) [''buildah'', ''team-a''] = []
   \<and> samples_after (BuildRunCompletionObserve ''buildah'' ''team-a'' ''sample'' ''br-1'' (- 1500000000)
          ex_initialized) buildRunCompletionDuration [''buildah'', ''team-a'']
       = Some [- 3 / 2]
   \<and> samples (buildRunRampUpDuration ex_initialized) [''buildah'', ''team-a''] = []
   \<and> samples_after (BuildRunRampUpDurationObserve ''buildah'' ''team-a'' ''sample'' ''br-1'' (- 1500000000)
          ex_initialized) buildRunRampUpDuration [''buildah'', ''team-a'']
       = Some [- 3 / 2]
   \<and> samples (taskRunRampUpDuration ex_initialized) [''buildah'', ''team-a''] = []
   \<and> samples_after (TaskRunRampUpDurationObserve ''buildah'' ''team-a'' ''sample'' ''br-1'' (- 1500000000)
          ex_initialized) taskRunRampUpDuration [''buildah'', ''team-a'']
       = Some [- 3 / 2]
   \<and> samples (taskRunPodRampUpDuration ex_initialized) [''buildah'', ''team-a''] = []
   \<and> samples_after (TaskRunPodRampUpDurationObserve ''buildah'' ''team-a'' ''sample'' ''br-1'' (- 1500000000)
          ex_initialized) taskRunPodRampUpDuration [''buildah'', ''team-a'']
       = Some [- 3 / 2]"
  using BuildRunEstablishObserve_samples [OF ex_initialized_applied,
      of "''buildah''" "''team-a''" "''sample''" "''br-1''" "- 1500000000"]
    BuildRunCompletionObserve_samples [OF ex_initialized_applied,
      of "''buildah''" "''team-a''" "''sample''" "''br-1''" "- 1500000000"]
    BuildRunRampUpDurationObserve_samples [OF ex_initialized_applied,
      of "''buildah''" "''team-a''" "''sample''" "''br-1''" "- 1500000000"]
    TaskRunRampUpDurationObserve_samples [OF ex_initialized_applied,
      of "''buildah''" "''team-a''" "''sample''" "''br-1''" "- 1500000000"]
    TaskRunPodRampUpDurationObserve_samples [OF ex_initialized_applied,
      of "''buildah''" "''team-a''" "''sample''" "''br-1''" "- 1500000000"]
  by (simp add: ex_initialized_values ex_initialized_empty ex_values_valid
      ex_config1_increasing Seconds_def)

text \<open>
  Claim C6, amended: in every state reached after \<^verbatim>\<open>InitPrometheus\<close> has returned at the
  start of the process, for a configuration whose bucket bounds are strictly increasing
  and for values of the enabled labels that are valid UTF-8, each of the five observe
  operations called with a negative duration returns without a panic and records the
  observation: the samples of its histogram for the label values of the call are the
  former ones followed by the duration in seconds, a negative number.
\<close>

theorem negative_duration_is_recorded:
  assumes "InitPrometheus config (initial_state reg) = Inr s0"
    and "perform_all xs s0 = Inr s"
    and "increasing (BuildRunEstablishDurationBuckets config)"
    and "increasing (BuildRunCompletionDurationBuckets config)"
    and "increasing (BuildRunRampUpDurationBuckets config)"
    and "list_all ValidString (buildRunLabelValues config a b c d)"
    and "t < 0"
  shows "Seconds t < 0
   \<and> samples_after (BuildRunEstablishObserve a b c d t s) buildRunEstablishDuration
         (buildRunLabelValues config a b c d)
       = Some (samples (buildRunEstablishDuration s) (buildRunLabelValues config a b c d) @ [Seconds t])
   \<and> samples_after (BuildRunCompletionObserve a b c d t s) buildRunCompletionDuration
         (buildRunLabelValues config a b c d)
       = Some (samples (buildRunCompletionDuration s) (buildRunLabelValues config a b c d) @ [Seconds t])
   \<and> samples_after (BuildRunRampUpDurationObserve a b c d t s) buildRunRampUpDuration
         (buildRunLabelValues config a b c d)
       = Some (samples (buildRunRampUpDuration s) (buildRunLabelValues config a b c d) @ [Seconds t])
   \<and> samples_after (TaskRunRampUpDurationObserve a b c d t s) taskRunRampUpDuration
         (buildRunLabelValues config a b c d)
       = Some (samples (taskRunRampUpDuration s) (buildRunLabelValues config a b c d) @ [Seconds t])
   \<and> samples_after (TaskRunPodRampUpDurationObserve a b c d t s) taskRunPodRampUpDuration
         (buildRunLabelValues config a b c d)
       = Some (samples (taskRunPodRampUpDuration s) (buildRunLabelValues config a b c d) @ [Seconds t])"
proof -
  from assms(1) have "label_config_applied config s0"
    by (rule InitPrometheus_initial_applied)
  from perform_all_preserves [OF this assms(2)] have inv: "label_config_applied config s" .
  from assms(7) have "Seconds t < 0"
    by (simp add: Seconds_def)
  then show ?thesis
    using assms(3-6)
    by (simp add: BuildRunEstablishObserve_samples [OF inv]
        BuildRunCompletionObserve_samples [OF inv]
        BuildRunRampUpDurationObserve_samples [OF inv]
        TaskRunRampUpDurationObserve_samples [OF inv]
        TaskRunPodRampUpDurationObserve_samples [OF inv])
qed

theorem negative_duration_is_recorded_witness:
  "InitPrometheus ex_config1 (initial_state []) = Inr ex_initialized
   \<and> perform_all [] ex_initialized = Inr ex_initialized
   \<and> increasing (BuildRunEstablishDurationBuckets ex_config1)
   \<and> increasing (BuildRunCompletionDurationBuckets ex_config1)
   \<and> increasing (BuildRunRampUpDurationBuckets ex_config1)
   \<and> list_all ValidString
        (buildRunLabelValues ex_config1 ''buildah'' ''team-a'' ''sample'' ''br-1'')
   \<and> Seconds (- 1500000000) < 0
   \<and> samples_after (BuildRunEstablishObserve ''buildah'' ''team-a'' ''sample'' ''br-1'' (- 1500000000) ex_initialized) buildRunEstablishDuration
         (buildRunLabelValues ex_config1 ''buildah'' ''team-a'' ''sample'' ''br-1'')
       = Some (samples (buildRunEstablishDuration ex_initialized) (buildRunLabelValues ex_config1 ''buildah'' ''team-a'' ''sample'' ''br-1'') @ [Seconds (- 1500000000)])
   \<and> samples_after (BuildRunCompletionObserve ''buildah'' ''team-a'' ''sample'' ''br-1'' (- 1500000000) ex_initialized) buildRunCompletionDuration
         (buildRunLabelValues ex_config1 ''buildah'' ''team-a'' ''sample'' ''br-1'')
       = Some (samples (buildRunCompletionDuration ex_initialized) (buildRunLabelValues ex_config1 ''buildah'' ''team-a'' ''sample'' ''br-1'') @ [Seconds (- 1500000000)])
   \<and> samples_after (BuildRunRampUpDurationObserve ''buildah'' ''team-a'' ''sample'' ''br-1'' (- 1500000000) ex_initialized) buildRunRampUpDuration
         (buildRunLabelValues ex_config1 ''buildah'' ''team-a'' ''sample'' ''br-1'')
       = Some (samples (buildRunRampUpDuration ex_initialized) (buildRunLabelValues ex_config1 ''buildah'' ''team-a'' ''sample'' ''br-1'') @ [Seconds (- 1500000000)])
   \<and> samples_after (TaskRunRampUpDurationObserve ''buildah'' ''team-a'' ''sample'' ''br-1'' (- 1500000000) ex_initialized) taskRunRampUpDuration
         (buildRunLabelValues ex_config1 ''buildah'' ''team-a'' ''sample'' ''br-1'')
       = Some (samples (taskRunRampUpDuration ex_initialized) (buildRunLabelValues ex_config1 ''buildah'' ''team-a'' ''sample'' ''br-1'') @ [Seconds (- 1500000000)])
   \<and> samples_after (TaskRunPodRampUpDurationObserve ''buildah'' ''team-a'' ''sample'' ''br-1'' (- 1500000000) ex_initialized) taskRunPodRampUpDuration
         (buildRunLabelValues ex_config1 ''buildah'' ''team-a'' ''sample'' ''br-1'')
       = Some (samples (taskRunPodRampUpDuration ex_initialized) (buildRunLabelValues ex_config1 ''buildah'' ''team-a'' ''sample'' ''br-1'') @ [Seconds (- 1500000000)])"
proof -
  have first: "InitPrometheus ex_config1 (initial_state []) = Inr ex_initialized"
    using InitPrometheus_initial_fresh [of "[]" ex_config1] by (simp add: ex_initialized_def)
  have none: "perform_all [] ex_initialized = Inr ex_initialized"
    by simp
  have valid: "list_all ValidString
      (buildRunLabelValues ex_config1 ''buildah'' ''team-a'' ''sample'' ''br-1'')"
    using ex_values_valid(3) by (simp only: ex_initialized_values)
  from negative_duration_is_recorded [OF first none ex_config1_increasing valid,
      of "- 1500000000"]
    first valid ex_config1_increasing
  show ?thesis by simp
qed

text \<open>
  Claim C8. In the state at the start of the process, before \<^verbatim>\<open>InitPrometheus\<close> has run,
  each of the two record operations and of the five observe operations returns without
  a panic and leaves the state of the package as it was.
\<close>

theorem record_before_init_is_noop:
  "BuildCountInc a b c (initial_state reg) = Inr (initial_state reg)
   \<and> BuildRunCountInc a b c d (initial_state reg) = Inr (initial_state reg)
   \<and> BuildRunEstablishObserve a b c d t (initial_state reg) = Inr (initial_state reg)
   \<and> BuildRunCompletionObserve a b c d t (initial_state reg) = Inr (initial_state reg)
   \<and> BuildRunRampUpDurationObserve a b c d t (initial_state reg) = Inr (initial_state reg)
   \<and> TaskRunRampUpDurationObserve a b c d t (initial_state reg) = Inr (initial_state reg)
   \<and> TaskRunPodRampUpDurationObserve a b c d t (initial_state reg) = Inr (initial_state reg)"
  by (simp add: BuildCountInc_def BuildRunCountInc_def BuildRunEstablishObserve_def
      BuildRunCompletionObserve_def BuildRunRampUpDurationObserve_def
      TaskRunRampUpDurationObserve_def TaskRunPodRampUpDurationObserve_def initial_state_def)

end
